theory Spec2Isabelle
  imports Complex_Main
begin

section \<open>Values, errors and tables\<close>

text \<open>
  The simulation module works on numpy arrays of floats. Arrays are modelled as lists and
  measurements as reals. Three computations are modelled with their rounding to binary64:
  the epsilon comparison of the criteria filter, Python's true division of two integers
  (the success probability and the efficiency metrics), and the product of an integer and
  a float literal in the sensitivity driver. The mixture of stage values and noise and the
  percentile are taken exact, so their rounding, overflow and NaN are outside the model.
  Every \<^verbatim>\<open>raise\<close> of the module, and every exception Python or numpy raises on the paths
  the module takes, is a constructor of \<open>error\<close>; a function that can raise returns
  \<open>error + 'a\<close> with \<open>Inl\<close> for the exception.
\<close>

datatype error =
    NoPositiveData         \<comment> \<open>fit_lognormal: "No positive data points for lognormal fitting"\<close>
  | NoValidDataPoints      \<comment> \<open>generate_samples: "No valid data points for sample generation"\<close>
  | UnsupportedMethod      \<comment> \<open>generate_samples: "Unsupported distribution method"\<close>
  | UnsupportedOperator string  \<comment> \<open>apply_criteria_filter: "Unsupported operator: ..."\<close>
  | NoValidData            \<comment> \<open>simulate_workflow: "No valid data provided"\<close>
  | Step1Exceeds int nat   \<comment> \<open>simulate_workflow: "Step 1 keep (..) cannot exceed data size (..)"\<close>
  | Step2Exceeds int int   \<comment> \<open>simulate_workflow: "Step 2 keep (..) cannot exceed step 1 keep (..)"\<close>
  | Step3Exceeds int int   \<comment> \<open>simulate_workflow: "Step 3 keep (..) cannot exceed step 2 keep (..)"\<close>
  | IndexError             \<comment> \<open>numpy: index out of bounds, or boolean mask of the wrong length\<close>
  | BroadcastError         \<comment> \<open>numpy: operands could not be broadcast together\<close>
  | NegativeSize           \<comment> \<open>numpy: negative dimensions are not allowed\<close>
  | PercentileRange        \<comment> \<open>numpy: percentiles must be in the range [0, 100]\<close>
  | LibraryError           \<comment> \<open>an exception raised inside scipy's fitting or sampling\<close>
  | ZeroDivisionError      \<comment> \<open>Python: division by zero\<close>
  | OverflowError          \<comment> \<open>Python: integer or quotient too large for a float, or \<^verbatim>\<open>int\<close> of an infinity\<close>

text \<open>
  A pandas table: \<open>nrows\<close> is \<^verbatim>\<open>len(df)\<close>, and \<open>columns\<close> lists each column name with
  its values. The criteria of a run are triples (column, operator, threshold).
\<close>

record dataframe =
  nrows :: nat
  columns :: "(string \<times> real list) list"

type_synonym criterion = "string \<times> string \<times> real"

text \<open>
  \<^verbatim>\<open>a[idx]\<close> for an integer index array: an index \<open>i\<close> with \<open>-n \<le> i < n\<close> reads position
  \<open>i\<close>, counted from the end when negative; any other index raises IndexError.
\<close>

definition np_index :: "nat \<Rightarrow> int \<Rightarrow> bool" where
  "np_index n i = (- int n \<le> i \<and> i < int n)"

definition np_pos :: "nat \<Rightarrow> int \<Rightarrow> nat" where
  "np_pos n i = nat (if i < 0 then int n + i else i)"

definition np_take :: "'a list \<Rightarrow> int list \<Rightarrow> error + 'a list" where
  "np_take a idx =
     (if list_all (np_index (length a)) idx
      then Inr (map (\<lambda>i. a ! np_pos (length a) i) idx)
      else Inl IndexError)"

section \<open>Binary64 arithmetic\<close>

text \<open>
  \<open>pow2 q\<close> is \<open>2\<close> to the integer power \<open>q\<close>, and \<open>round_half_even\<close> rounds a real to
  the nearest integer, a half to the even neighbour.
\<close>

definition pow2 :: "int \<Rightarrow> real" where
  "pow2 q = (if 0 \<le> q then 2 ^ nat q else 1 / 2 ^ nat (- q))"

definition round_half_even :: "real \<Rightarrow> int" where
  "round_half_even y =
     (let n = \<lfloor>y\<rfloor>; f = y - real_of_int n
      in if f < 1 / 2 then n else if 1 / 2 < f then n + 1 else if even n then n else n + 1)"

text \<open>
  The binary64 value nearest to a real \<open>x\<close>: with \<open>pow2 e \<le> \<bar>x\<bar> < pow2 (e + 1)\<close>, the
  spacing of the format at \<open>x\<close> is \<open>pow2 (e - 52)\<close> (53 significant bits), and never less
  than \<open>pow2 (- 1074)\<close> (the subnormal numbers); \<open>x\<close> is rounded to the nearest multiple of
  the spacing, a tie to the even one.
\<close>

definition binary64 :: "real \<Rightarrow> real" where
  "binary64 x =
     (if x = 0 then 0
      else
        (let q = max (\<lfloor>log 2 \<bar>x\<bar>\<rfloor> - 52) (- 1074)
         in sgn x * real_of_int (round_half_even (\<bar>x\<bar> / pow2 q)) * pow2 q))"

text \<open>
  \<^verbatim>\<open>a / b\<close> for Python integers: the correctly rounded quotient; ZeroDivisionError for a
  zero divisor, OverflowError when the quotient is beyond the range of the format.
\<close>

definition py_truediv :: "int \<Rightarrow> int \<Rightarrow> error + real" where
  "py_truediv a b =
     (if b = 0 then Inl ZeroDivisionError
      else
        (let v = binary64 (real_of_int a / real_of_int b)
         in if pow2 1024 \<le> \<bar>v\<bar> then Inl OverflowError else Inr v))"

text \<open>
  \<^verbatim>\<open>int(n * factor)\<close> for a Python integer \<open>n\<close> and a float \<open>factor\<close>. The integer is
  first converted to the nearest binary64 value (\<open>py_float\<close>), which raises OverflowError
  when that value is beyond the range of the format; the product of the two floats is
  rounded to binary64, and is infinite when the rounded value is beyond the range;
  \<^verbatim>\<open>int\<close> truncates a finite float toward zero (\<open>py_int\<close>) and raises OverflowError for
  an infinite one.
\<close>

definition py_float :: "int \<Rightarrow> error + real" where
  "py_float n =
     (let v = binary64 (real_of_int n)
      in if pow2 1024 \<le> \<bar>v\<bar> then Inl OverflowError else Inr v)"

definition py_int :: "real \<Rightarrow> int" where
  "py_int x = (if 0 \<le> x then \<lfloor>x\<rfloor> else \<lceil>x\<rceil>)"

definition int_of_product :: "int \<Rightarrow> real \<Rightarrow> error + int" where
  "int_of_product n factor =
     (case py_float n of
        Inl e \<Rightarrow> Inl e
      | Inr x \<Rightarrow>
          (let p = binary64 (x * factor)
           in if pow2 1024 \<le> \<bar>p\<bar> then Inl OverflowError else Inr (py_int p)))"

section \<open>Criteria filter\<close>

text \<open>
  \<^verbatim>\<open>np.abs(col_vals - thresh) < 1e-10\<close>, for one value of the column: the difference of
  the two floats is rounded to binary64, its absolute value is exact, and the literal
  \<^verbatim>\<open>1e-10\<close> is the binary64 value nearest to \<open>1 / 10 ^ 10\<close>. (A difference beyond the range
  of the format is infinite in numpy and a large number here; neither is below the
  literal.)
\<close>

definition eq_within :: "real \<Rightarrow> real \<Rightarrow> bool" where
  "eq_within thresh v = (\<bar>binary64 (v - thresh)\<bar> < binary64 (1 / 10 ^ 10))"

text \<open>
  The loop of \<^verbatim>\<open>apply_criteria_filter\<close> over the criteria, with \<open>filter_mask\<close> as the
  accumulator. A criterion whose column is not in the table is skipped before its operator
  is looked at; otherwise the column is read at \<open>indices\<close> first (which can raise
  IndexError) and then the operator is dispatched.
\<close>

fun criteria_loop ::
  "dataframe \<Rightarrow> criterion list \<Rightarrow> int list \<Rightarrow> bool list \<Rightarrow> error + bool list" where
  "criteria_loop df [] indices filter_mask = Inr filter_mask"
| "criteria_loop df ((crit_col, opr, thresh) # rest) indices filter_mask =
     (case map_of (columns df) crit_col of
        None \<Rightarrow> criteria_loop df rest indices filter_mask
      | Some vals \<Rightarrow>
          (case np_take vals indices of
             Inl e \<Rightarrow> Inl e
           | Inr col_vals \<Rightarrow>
               if opr = ''>='' then
                 criteria_loop df rest indices
                   (map2 (\<and>) filter_mask (map (\<lambda>v. v \<ge> thresh) col_vals))
               else if opr = ''<='' then
                 criteria_loop df rest indices
                   (map2 (\<and>) filter_mask (map (\<lambda>v. v \<le> thresh) col_vals))
               else if opr = ''='' then
                 criteria_loop df rest indices
                   (map2 (\<and>) filter_mask (map (eq_within thresh) col_vals))
               else Inl (UnsupportedOperator opr)))"

definition apply_criteria_filter ::
  "dataframe \<Rightarrow> criterion list \<Rightarrow> int list \<Rightarrow> error + bool list" where
  "apply_criteria_filter df criteria_settings indices =
     (if criteria_settings = [] then Inr (replicate (length indices) True)
      else criteria_loop df criteria_settings indices (replicate (length indices) True))"

section \<open>Distribution fitting and sample generation\<close>

text \<open>
  scipy's fitting and sampling are not part of the repository; they are a parameter of the
  model. \<open>'r\<close> is the state of the random generator. \<open>lognorm_fit\<close> is
  \<^verbatim>\<open>lognorm.fit(data, floc=0)\<close>, with \<open>None\<close> when it raises; \<open>lognorm_valid\<close> is the argument
  check of \<^verbatim>\<open>lognorm.rvs\<close> and \<open>lognorm_draw\<close> one variate of it; \<open>kde_valid\<close> says
  whether \<^verbatim>\<open>gaussian_kde(data)\<close> can be constructed and \<open>kde_draw\<close> is one point resampled
  from the estimate built on \<open>data\<close>.
\<close>

type_synonym lognorm_params = "real \<times> real \<times> real"

record 'r scipy =
  lognorm_fit :: "real list \<Rightarrow> lognorm_params option"
  lognorm_valid :: "lognorm_params \<Rightarrow> bool"
  lognorm_draw :: "lognorm_params \<Rightarrow> 'r \<Rightarrow> real \<times> 'r"
  kde_valid :: "real list \<Rightarrow> bool"
  kde_draw :: "real list \<Rightarrow> 'r \<Rightarrow> real \<times> 'r"

text \<open>\<open>n\<close> variates in a row, each from the generator state the previous one left.\<close>

fun draws :: "('r \<Rightarrow> real \<times> 'r) \<Rightarrow> nat \<Rightarrow> 'r \<Rightarrow> real list \<times> 'r" where
  "draws d 0 r = ([], r)"
| "draws d (Suc n) r =
     (case d r of (x, r1) \<Rightarrow> (case draws d n r1 of (xs, r2) \<Rightarrow> (x # xs, r2)))"

text \<open>
  \<^verbatim>\<open>lognorm.rvs(shape, loc=loc, scale=scale, size=size)\<close> and
  \<^verbatim>\<open>gaussian_kde(data).resample(size).flatten()\<close>. Both raise before anything is drawn.
  The argument \<open>sz\<close> is the source's \<^verbatim>\<open>size\<close>.
\<close>

definition lognorm_rvs ::
  "'r scipy \<Rightarrow> lognorm_params \<Rightarrow> int \<Rightarrow> 'r \<Rightarrow> (error + real list) \<times> 'r" where
  "lognorm_rvs L params sz r =
     (if \<not> lognorm_valid L params then (Inl LibraryError, r)
      else if sz < 0 then (Inl NegativeSize, r)
      else (case draws (lognorm_draw L params) (nat sz) r of (xs, r') \<Rightarrow> (Inr xs, r')))"

definition kde_resample ::
  "'r scipy \<Rightarrow> real list \<Rightarrow> int \<Rightarrow> 'r \<Rightarrow> (error + real list) \<times> 'r" where
  "kde_resample L data sz r =
     (if \<not> kde_valid L data then (Inl LibraryError, r)
      else if sz < 0 then (Inl NegativeSize, r)
      else (case draws (kde_draw L data) (nat sz) r of (xs, r') \<Rightarrow> (Inr xs, r')))"

definition fit_lognormal :: "'r scipy \<Rightarrow> real list \<Rightarrow> error + lognorm_params" where
  "fit_lognormal L data0 =
     (let data = filter (\<lambda>x. x > 0) data0 in
      if length data = 0 then Inl NoPositiveData
      else (case lognorm_fit L data of None \<Rightarrow> Inl LibraryError | Some params \<Rightarrow> Inr params))"

definition generate_samples ::
  "'r scipy \<Rightarrow> real list \<Rightarrow> int \<Rightarrow> string \<Rightarrow> lognorm_params option \<Rightarrow> 'r
     \<Rightarrow> (error + real list) \<times> 'r" where
  "generate_samples L data0 sz method fitted_model r =
     (let data = filter (\<lambda>x. x > 0) data0 in
      if length data = 0 then (Inl NoValidDataPoints, r)
      else if method = ''lognormal'' then
        (case (case fitted_model of Some m \<Rightarrow> Inr m | None \<Rightarrow> fit_lognormal L data) of
           Inl e \<Rightarrow> (Inl e, r)
         | Inr params \<Rightarrow> lognorm_rvs L params sz r)
      else if method = ''kde'' then kde_resample L data sz r
      else (Inl UnsupportedMethod, r))"

section \<open>numpy operations used by the simulator\<close>

text \<open>
  \<^verbatim>\<open>np.argsort\<close>: the positions of the array in ascending order of value. numpy's default
  sort leaves the order of equal values open; the model takes the stable order.
\<close>

definition argsort :: "real list \<Rightarrow> nat list" where
  "argsort xs = map snd (sort_key fst (zip xs [0..<length xs]))"

text \<open>
  The slice \<^verbatim>\<open>a[-k:]\<close>: the last \<open>k\<close> entries for \<open>k > 0\<close> (all of them when there are
  fewer), the whole array for \<open>k = 0\<close>, and \<^verbatim>\<open>a[|k|:]\<close> for \<open>k < 0\<close>.
\<close>

definition py_last :: "int \<Rightarrow> 'a list \<Rightarrow> 'a list" where
  "py_last k a = (if k > 0 then drop (length a - nat k) a else drop (nat (- k)) a)"

text \<open>\<^verbatim>\<open>a[mask]\<close> for a boolean mask, which must be as long as the array.\<close>

definition np_mask :: "'a list \<Rightarrow> bool list \<Rightarrow> error + 'a list" where
  "np_mask a m =
     (if length m = length a then Inr (map fst (filter snd (zip a m))) else Inl IndexError)"

text \<open>Elementwise \<open>+\<close> of two one-dimensional arrays, with numpy's broadcasting.\<close>

definition np_add :: "real list \<Rightarrow> real list \<Rightarrow> error + real list" where
  "np_add xs ys =
     (if length xs = length ys then Inr (map2 (+) xs ys)
      else if length xs = 1 then Inr (map (\<lambda>y. hd xs + y) ys)
      else if length ys = 1 then Inr (map (\<lambda>x. x + hd ys) xs)
      else Inl BroadcastError)"

text \<open>
  \<^verbatim>\<open>correlation * base + np.sqrt(1 - correlation**2) * noise\<close>. For a correlation outside
  \<open>[-1, 1]\<close> numpy computes NaN, which the model does not represent.
\<close>

definition correlate :: "real \<Rightarrow> real list \<Rightarrow> real list \<Rightarrow> error + real list" where
  "correlate correlation base noise =
     np_add (map (\<lambda>x. correlation * x) base) (map (\<lambda>z. sqrt (1 - correlation ^ 2) * z) noise)"

text \<open>
  \<^verbatim>\<open>np.percentile(a, q)\<close> with the default linear interpolation. The simulator calls it
  only after it has checked that the data are not empty.
\<close>

definition np_percentile :: "real list \<Rightarrow> real \<Rightarrow> error + real" where
  "np_percentile a q =
     (if q < 0 \<or> 100 < q then Inl PercentileRange
      else if a = [] then Inl IndexError
      else
        (let s = sort a; n = length s; pos = q / 100 * real (n - 1);
             lo = nat \<lfloor>pos\<rfloor>; hi = min (lo + 1) (n - 1)
         in Inr (s ! lo + (pos - real lo) * (s ! hi - s ! lo))))"

section \<open>One trial of the workflow simulator\<close>

text \<open>
  The body of the \<^verbatim>\<open>for rep in range(n_rep)\<close> loop stops early in two ways: a
  \<^verbatim>\<open>continue\<close>, or an exception, which the \<^verbatim>\<open>except Exception\<close> handler turns into a
  \<^verbatim>\<open>continue\<close>. Each part of the body returns \<open>abort + 'a\<close>; the parts that draw
  samples also return the generator state they leave.
\<close>

datatype abort = Continue | Raised error

text \<open>
  Step 1 (lines 87--94): the synthetic measurements of the whole population, and, when the
  criteria are not applied at the final step, the filter over all rows of the table.
\<close>

definition initial_filter ::
  "dataframe \<Rightarrow> criterion list \<Rightarrow> real list \<Rightarrow> int \<Rightarrow> abort + real list" where
  "initial_filter df criteria_settings assay_f0 step1_keep =
     (case apply_criteria_filter df criteria_settings (map int [0..<nrows df]) of
        Inl e \<Rightarrow> Inl (Raised e)
      | Inr filter_mask \<Rightarrow>
          (case np_mask assay_f0 filter_mask of
             Inl e \<Rightarrow> Inl (Raised e)
           | Inr assay_f \<Rightarrow>
               if int (length assay_f) < step1_keep then Inl Continue else Inr assay_f))"

definition stage1 ::
  "'r scipy \<Rightarrow> real list \<Rightarrow> dataframe \<Rightarrow> int \<Rightarrow> string \<Rightarrow> lognorm_params option
     \<Rightarrow> criterion list \<Rightarrow> bool \<Rightarrow> 'r \<Rightarrow> (abort + real list) \<times> 'r" where
  "stage1 L real_data df step1_keep method fitted_model criteria_settings apply_criteria r =
     (case generate_samples L real_data (int (length real_data)) method fitted_model r of
        (Inl e, r1) \<Rightarrow> (Inl (Raised e), r1)
      | (Inr assay_f0, r1) \<Rightarrow>
          if \<not> apply_criteria
          then (initial_filter df criteria_settings assay_f0 step1_keep, r1)
          else (Inr assay_f0, r1))"

text \<open>
  Step 2 (lines 97--109). The result is
  \<open>(top1_idx, top1_f, assay_g, top2_idx, top2_f)\<close>.
\<close>

type_synonym stage2_result = "nat list \<times> real list \<times> real list \<times> nat list \<times> real list"

definition stage2 ::
  "'r scipy \<Rightarrow> real list \<Rightarrow> int \<Rightarrow> int \<Rightarrow> real \<Rightarrow> string \<Rightarrow> lognorm_params option
     \<Rightarrow> real list \<Rightarrow> 'r \<Rightarrow> (abort + stage2_result) \<times> 'r" where
  "stage2 L real_data step1_keep step2_keep correlation method fitted_model assay_f r =
     (let top1_idx = py_last step1_keep (argsort assay_f) in
      case np_take assay_f (map int top1_idx) of
        Inl e \<Rightarrow> (Inl (Raised e), r)
      | Inr top1_f \<Rightarrow>
          (case generate_samples L real_data step1_keep method fitted_model r of
             (Inl e, r2) \<Rightarrow> (Inl (Raised e), r2)
           | (Inr noise1, r2) \<Rightarrow>
               (case correlate correlation top1_f noise1 of
                  Inl e \<Rightarrow> (Inl (Raised e), r2)
                | Inr assay_g \<Rightarrow>
                    if int (length assay_g) < step2_keep then (Inl Continue, r2)
                    else
                      (let top2_idx = py_last step2_keep (argsort assay_g) in
                       case np_take top1_f (map int top2_idx) of
                         Inl e \<Rightarrow> (Inl (Raised e), r2)
                       | Inr top2_f \<Rightarrow>
                           (Inr (top1_idx, top1_f, assay_g, top2_idx, top2_f), r2)))))"

text \<open>
  The final selection (lines 112--123), with result \<open>(final_idx, final_scores)\<close>. Any
  \<open>workflow_steps\<close> other than 3 takes the \<^verbatim>\<open>else\<close> branch.
\<close>

definition final_selection ::
  "'r scipy \<Rightarrow> real list \<Rightarrow> int \<Rightarrow> int \<Rightarrow> real \<Rightarrow> string \<Rightarrow> lognorm_params option
     \<Rightarrow> int \<Rightarrow> stage2_result \<Rightarrow> 'r \<Rightarrow> (abort + nat list \<times> real list) \<times> 'r" where
  "final_selection L real_data step2_keep step3_keep correlation method fitted_model
       workflow_steps s r =
     (case s of (top1_idx, top1_f, assay_g, top2_idx, top2_f) \<Rightarrow>
        if workflow_steps = 3 then
          (case generate_samples L real_data step2_keep method fitted_model r of
             (Inl e, r3) \<Rightarrow> (Inl (Raised e), r3)
           | (Inr noise2, r3) \<Rightarrow>
               (case correlate correlation top2_f noise2 of
                  Inl e \<Rightarrow> (Inl (Raised e), r3)
                | Inr assay_h \<Rightarrow>
                    if int (length assay_h) < step3_keep then (Inl Continue, r3)
                    else
                      (let final_idx = py_last step3_keep (argsort assay_h) in
                       case np_take top2_f (map int final_idx) of
                         Inl e \<Rightarrow> (Inl (Raised e), r3)
                       | Inr final_scores \<Rightarrow> (Inr (final_idx, final_scores), r3))))
        else
          (let final_idx = py_last step3_keep (argsort assay_g) in
           case np_take top1_f (map int final_idx) of
             Inl e \<Rightarrow> (Inl (Raised e), r)
           | Inr final_scores \<Rightarrow> (Inr (final_idx, final_scores), r)))"

text \<open>
  The criteria gate at the final step (lines 126--136): the final positions are mapped
  back to rows of the table and the trial is abandoned unless every one of them passes.
\<close>

definition original_indices ::
  "int \<Rightarrow> stage2_result \<Rightarrow> nat list \<Rightarrow> error + nat list" where
  "original_indices workflow_steps s final_idx =
     (case s of (top1_idx, top1_f, assay_g, top2_idx, top2_f) \<Rightarrow>
        if workflow_steps = 3 then
          (case np_take top2_idx (map int final_idx) of
             Inl e \<Rightarrow> Inl e
           | Inr t \<Rightarrow> np_take top1_idx (map int t))
        else np_take top1_idx (map int final_idx))"

definition final_gate ::
  "dataframe \<Rightarrow> criterion list \<Rightarrow> bool \<Rightarrow> int \<Rightarrow> stage2_result \<Rightarrow> nat list
     \<Rightarrow> abort + unit" where
  "final_gate df criteria_settings apply_criteria workflow_steps s final_idx =
     (if apply_criteria then
        (case original_indices workflow_steps s final_idx of
           Inl e \<Rightarrow> Inl (Raised e)
         | Inr orig \<Rightarrow>
             (case apply_criteria_filter df criteria_settings (map int orig) of
                Inl e \<Rightarrow> Inl (Raised e)
              | Inr final_mask \<Rightarrow> if \<not> list_all (\<lambda>b. b) final_mask then Inl Continue else Inr ()))
      else Inr ())"

text \<open>\<^verbatim>\<open>np.sum(final_scores >= cutoff)\<close>.\<close>

definition count_success :: "real \<Rightarrow> real list \<Rightarrow> nat" where
  "count_success cutoff final_scores = length (filter (\<lambda>x. x \<ge> cutoff) final_scores)"

text \<open>
  The whole body of the \<^verbatim>\<open>try\<close> block: \<open>Inr c\<close> when the trial reaches line 140 and
  appends the count \<open>c\<close> to \<open>success_counts\<close>.
\<close>

definition trial_body ::
  "'r scipy \<Rightarrow> real list \<Rightarrow> dataframe \<Rightarrow> int \<Rightarrow> int \<Rightarrow> int \<Rightarrow> real \<Rightarrow> string
     \<Rightarrow> lognorm_params option \<Rightarrow> criterion list \<Rightarrow> bool \<Rightarrow> int \<Rightarrow> real \<Rightarrow> 'r
     \<Rightarrow> (abort + nat) \<times> 'r" where
  "trial_body L real_data df step1_keep step2_keep step3_keep correlation method fitted_model
       criteria_settings apply_criteria workflow_steps cutoff r =
     (case stage1 L real_data df step1_keep method fitted_model criteria_settings
             apply_criteria r of
        (Inl a, r1) \<Rightarrow> (Inl a, r1)
      | (Inr assay_f, r1) \<Rightarrow>
          (case stage2 L real_data step1_keep step2_keep correlation method fitted_model
                  assay_f r1 of
             (Inl a, r2) \<Rightarrow> (Inl a, r2)
           | (Inr s, r2) \<Rightarrow>
               (case final_selection L real_data step2_keep step3_keep correlation method
                       fitted_model workflow_steps s r2 of
                  (Inl a, r3) \<Rightarrow> (Inl a, r3)
                | (Inr (final_idx, final_scores), r3) \<Rightarrow>
                    (case final_gate df criteria_settings apply_criteria workflow_steps s
                            final_idx of
                       Inl a \<Rightarrow> (Inl a, r3)
                     | Inr _ \<Rightarrow> (Inr (count_success cutoff final_scores), r3)))))"

section \<open>The workflow simulator\<close>

text \<open>
  Lines 139--144: the count of a completed trial is appended to \<open>success_counts\<close>, and
  \<open>success_count\<close> goes up when the count equals \<open>step3_keep\<close>.
\<close>

definition tally :: "int \<Rightarrow> nat \<times> nat list \<Rightarrow> nat \<Rightarrow> nat \<times> nat list" where
  "tally step3_keep acc c =
     (case acc of (success_count, success_counts) \<Rightarrow>
        (if int c = step3_keep then success_count + 1 else success_count,
         success_counts @ [c]))"

text \<open>
  The loop over \<^verbatim>\<open>range(n_rep)\<close>, with the \<^verbatim>\<open>try\<close>/\<^verbatim>\<open>except\<close>: a trial that
  raised or hit a \<^verbatim>\<open>continue\<close> changes nothing but the generator state.
\<close>

fun run_trials ::
  "('r \<Rightarrow> (abort + nat) \<times> 'r) \<Rightarrow> int \<Rightarrow> nat \<Rightarrow> (nat \<times> nat list) \<times> 'r
     \<Rightarrow> (nat \<times> nat list) \<times> 'r" where
  "run_trials body step3_keep 0 st = st"
| "run_trials body step3_keep (Suc n) (acc, r) =
     (case body r of
        (Inl a, r') \<Rightarrow> run_trials body step3_keep n (acc, r')
      | (Inr c, r') \<Rightarrow> run_trials body step3_keep n (tally step3_keep acc c, r'))"

text \<open>
  \<open>simulate_workflow\<close> returns \<open>(success_probability, fitted_model, success_counts)\<close>
  and the generator state after the last trial. The four checks, the fit and the cutoff
  come before the loop and are not inside any \<^verbatim>\<open>try\<close>.
\<close>

type_synonym simulation_result = "real \<times> lognorm_params option \<times> nat list"

definition simulate_workflow ::
  "'r scipy \<Rightarrow> real list \<Rightarrow> dataframe \<Rightarrow> real \<Rightarrow> int \<Rightarrow> int \<Rightarrow> int \<Rightarrow> real \<Rightarrow> int
     \<Rightarrow> string \<Rightarrow> criterion list \<Rightarrow> bool \<Rightarrow> int \<Rightarrow> 'r
     \<Rightarrow> error + simulation_result \<times> 'r" where
  "simulate_workflow L real_data df top_x_percent step1_keep step2_keep step3_keep
       correlation n_rep method criteria_settings apply_criteria workflow_steps r =
     (if length real_data = 0 then Inl NoValidData
      else if step1_keep > int (length real_data)
        then Inl (Step1Exceeds step1_keep (length real_data))
      else if step2_keep > step1_keep then Inl (Step2Exceeds step2_keep step1_keep)
      else if workflow_steps = 3 \<and> step3_keep > step2_keep
        then Inl (Step3Exceeds step3_keep step2_keep)
      else
        (case (if method = ''lognormal''
               then (case fit_lognormal L real_data of Inl e \<Rightarrow> Inl e | Inr m \<Rightarrow> Inr (Some m))
               else Inr None) of
           Inl e \<Rightarrow> Inl e
         | Inr fitted_model \<Rightarrow>
             (case np_percentile real_data (100 - top_x_percent) of
                Inl e \<Rightarrow> Inl e
              | Inr cutoff \<Rightarrow>
                  (case run_trials
                          (trial_body L real_data df step1_keep step2_keep step3_keep
                             correlation method fitted_model criteria_settings apply_criteria
                             workflow_steps cutoff)
                          step3_keep (nat n_rep) ((0, []), r) of
                     ((success_count, success_counts), r') \<Rightarrow>
                       (case (if n_rep > 0 then py_truediv (int success_count) n_rep
                              else Inr 0) of
                          Inl e \<Rightarrow> Inl e
                        | Inr success_probability \<Rightarrow>
                            Inr ((success_probability, fitted_model, success_counts), r'))))))"

section \<open>Workflow efficiency\<close>

record efficiency_metrics =
  reduction_ratio :: real
  step1_efficiency :: real
  step2_efficiency :: real
  overall_efficiency :: real

text \<open>
  The keep-counts are Python integers and \<^verbatim>\<open>/\<close> is true division. The entries of the
  dictionary are computed in the order written, and the first division that raises ends
  the call.
\<close>

definition calculate_workflow_efficiency ::
  "int \<Rightarrow> int \<Rightarrow> int \<Rightarrow> int \<Rightarrow> error + efficiency_metrics" where
  "calculate_workflow_efficiency step1_keep step2_keep step3_keep workflow_steps =
     (let total_screened = step1_keep;
          final_selected = (if workflow_steps = 3 then step3_keep else step2_keep)
      in case py_truediv total_screened final_selected of
           Inl e \<Rightarrow> Inl e
         | Inr rr \<Rightarrow>
             (case py_truediv step2_keep step1_keep of
                Inl e \<Rightarrow> Inl e
              | Inr e1 \<Rightarrow>
                  (case (if workflow_steps = 3 then py_truediv step3_keep step2_keep
                         else Inr 1) of
                     Inl e \<Rightarrow> Inl e
                   | Inr e2 \<Rightarrow>
                       (case py_truediv final_selected total_screened of
                          Inl e \<Rightarrow> Inl e
                        | Inr oe \<Rightarrow>
                            Inr \<lparr>reduction_ratio = rr, step1_efficiency = e1,
                                 step2_efficiency = e2, overall_efficiency = oe\<rparr>))))"

section \<open>Sensitivity analysis\<close>

text \<open>
  The keys of the \<open>settings\<close> dictionary that the sensitivity driver reads.
\<close>

record settings =
  top_x_percent :: real
  step1_keep :: int
  step2_keep :: int
  step3_keep :: int
  dist_method :: string
  criteria_settings :: "criterion list"
  apply_criteria_at_step2 :: bool
  workflow_steps :: int

text \<open>
  Lines 164--176: the dictionary \<open>param_ranges\<close>. The five candidates of a keep-count are
  \<^verbatim>\<open>int(base * 0.5)\<close>, \<^verbatim>\<open>int(base * 0.75)\<close>, \<^verbatim>\<open>base\<close>, \<^verbatim>\<open>int(base * 1.25)\<close> and
  \<^verbatim>\<open>int(base * 1.5)\<close>, computed in this order; the four factors are binary64 values.
  The dictionary is built before the loops and outside any \<^verbatim>\<open>try\<close>, so an
  OverflowError of a product ends the driver.
\<close>

definition keep_candidates :: "int \<Rightarrow> error + int list" where
  "keep_candidates base =
     (case int_of_product base 0.5 of
        Inl e \<Rightarrow> Inl e
      | Inr c1 \<Rightarrow>
          (case int_of_product base 0.75 of
             Inl e \<Rightarrow> Inl e
           | Inr c2 \<Rightarrow>
               (case int_of_product base 1.25 of
                  Inl e \<Rightarrow> Inl e
                | Inr c4 \<Rightarrow>
                    (case int_of_product base 1.5 of
                       Inl e \<Rightarrow> Inl e
                     | Inr c5 \<Rightarrow> Inr [c1, c2, base, c4, c5]))))"

definition param_ranges :: "settings \<Rightarrow> error + (string \<times> int list) list" where
  "param_ranges base_settings =
     (case keep_candidates (step1_keep base_settings) of
        Inl e \<Rightarrow> Inl e
      | Inr values1 \<Rightarrow>
          (case keep_candidates (step2_keep base_settings) of
             Inl e \<Rightarrow> Inl e
           | Inr values2 \<Rightarrow>
               Inr [(''step1_keep'', values1),
                    (''step2_keep'', values2),
                    (''top_x_percent'', [1, 2, 5, 10, 15])]))"

text \<open>
  Lines 186--194: the copy of the baseline with one parameter replaced and the dependent
  keep-counts clamped.
\<close>

definition test_settings :: "settings \<Rightarrow> string \<Rightarrow> int \<Rightarrow> settings" where
  "test_settings base_settings param_name param_value =
     (if param_name = ''step1_keep'' then
        (let t1 = base_settings\<lparr>step1_keep := param_value\<rparr>;
             t2 = t1\<lparr>step2_keep := min (step2_keep t1) param_value\<rparr>
         in t2\<lparr>step3_keep := min (step3_keep t2) (step2_keep t2)\<rparr>)
      else if param_name = ''step2_keep'' then
        (let t1 = base_settings\<lparr>step2_keep := param_value\<rparr>
         in t1\<lparr>step3_keep := min (step3_keep t1) param_value\<rparr>)
      else if param_name = ''top_x_percent'' then
        base_settings\<lparr>top_x_percent := real_of_int param_value\<rparr>
      else base_settings)"

text \<open>
  Lines 197--203: the call of the simulator on the modified settings, with 1000
  repetitions.
\<close>

definition simulate_candidate ::
  "'r scipy \<Rightarrow> real list \<Rightarrow> dataframe \<Rightarrow> settings \<Rightarrow> real \<Rightarrow> 'r
     \<Rightarrow> error + simulation_result \<times> 'r" where
  "simulate_candidate L results df t correlation r =
     simulate_workflow L results df (top_x_percent t) (step1_keep t) (step2_keep t)
       (step3_keep t) correlation 1000 (dist_method t) (criteria_settings t)
       (apply_criteria_at_step2 t) (workflow_steps t) r"

text \<open>
  Lines 196--206: the \<^verbatim>\<open>try\<close> around the call; any exception gives the probability 0.
  The simulator raises only before its first trial (the division after the loop has a
  count of at most \<open>n_rep\<close> over a positive \<open>n_rep\<close>), so the generator state is then the
  one it was given.
\<close>

definition run_candidate ::
  "'r scipy \<Rightarrow> real list \<Rightarrow> dataframe \<Rightarrow> settings \<Rightarrow> real \<Rightarrow> 'r \<Rightarrow> real \<times> 'r" where
  "run_candidate L results df t correlation r =
     (case simulate_candidate L results df t correlation r of
        Inl e \<Rightarrow> (0, r)
      | Inr ((prob, _, _), r') \<Rightarrow> (prob, r'))"

text \<open>The inner loop over the candidate values of one parameter.\<close>

fun sweep_values ::
  "'r scipy \<Rightarrow> real list \<Rightarrow> dataframe \<Rightarrow> settings \<Rightarrow> real \<Rightarrow> string \<Rightarrow> int list \<Rightarrow> 'r
     \<Rightarrow> real list \<times> 'r" where
  "sweep_values L results df base_settings correlation param_name [] r = ([], r)"
| "sweep_values L results df base_settings correlation param_name (param_value # rest) r =
     (case run_candidate L results df (test_settings base_settings param_name param_value)
             correlation r of
        (prob, r1) \<Rightarrow>
          (case sweep_values L results df base_settings correlation param_name rest r1 of
             (probabilities, r2) \<Rightarrow> (prob # probabilities, r2)))"

text \<open>
  The outer loop over the parameters. An entry of the result is
  \<open>(param_name, values, probabilities)\<close>.
\<close>

fun sweep_params ::
  "'r scipy \<Rightarrow> real list \<Rightarrow> dataframe \<Rightarrow> settings \<Rightarrow> real \<Rightarrow> (string \<times> int list) list \<Rightarrow> 'r
     \<Rightarrow> (string \<times> int list \<times> real list) list \<times> 'r" where
  "sweep_params L results df base_settings correlation [] r = ([], r)"
| "sweep_params L results df base_settings correlation ((param_name, param_values) # rest) r =
     (case sweep_values L results df base_settings correlation param_name param_values r of
        (probabilities, r1) \<Rightarrow>
          (case sweep_params L results df base_settings correlation rest r1 of
             (entries, r2) \<Rightarrow> ((param_name, param_values, probabilities) # entries, r2)))"

text \<open>
  The driver: the candidate lists first, then the correlation, then the two loops. It
  raises only when the candidate lists do.
\<close>

definition run_sensitivity_analysis ::
  "'r scipy \<Rightarrow> real list \<Rightarrow> dataframe \<Rightarrow> settings \<Rightarrow> real list \<Rightarrow> 'r
     \<Rightarrow> error + (string \<times> int list \<times> real list) list \<times> 'r" where
  "run_sensitivity_analysis L results df base_settings correlations r =
     (case param_ranges base_settings of
        Inl e \<Rightarrow> Inl e
      | Inr ranges \<Rightarrow>
          (let correlation = (if length correlations > 0 then correlations ! 0 else 0.5)
           in Inr (sweep_params L results df base_settings correlation ranges r)))"

section \<open>A deterministic sampler for worked examples\<close>

text \<open>
  The generator state counts the variates drawn so far, and the next variate is that count
  plus one; the fit always gives shape 1, location 0 and scale 1.
\<close>

definition counting_sampler :: "nat scipy" where
  "counting_sampler =
     \<lparr>lognorm_fit = (\<lambda>data. Some (1, 0, 1)),
      lognorm_valid = (\<lambda>params. True),
      lognorm_draw = (\<lambda>params r. (real r + 1, Suc r)),
      kde_valid = (\<lambda>data. True),
      kde_draw = (\<lambda>data r. (real r + 1, Suc r))\<rparr>"

section \<open>Notions used in the statements\<close>

text \<open>
  In a pandas table every column has \<^verbatim>\<open>len(df)\<close> values; an index sequence is a sequence
  of row positions of the table when each index is valid for \<^verbatim>\<open>len(df)\<close> rows.
\<close>

definition table_ok :: "dataframe \<Rightarrow> bool" where
  "table_ok df = list_all (\<lambda>cv. length (snd cv) = nrows df) (columns df)"

definition row_positions :: "dataframe \<Rightarrow> int list \<Rightarrow> bool" where
  "row_positions df indices = list_all (np_index (nrows df)) indices"

text \<open>The three operators the filter dispatches on.\<close>

definition supported_operator :: "string \<Rightarrow> bool" where
  "supported_operator opr = (opr = ''>='' \<or> opr = ''<='' \<or> opr = ''='')"

text \<open>A criterion on a column of the table whose operator is none of the three.\<close>

definition offending :: "dataframe \<Rightarrow> criterion \<Rightarrow> bool" where
  "offending df crit =
     (case crit of (crit_col, opr, thresh) \<Rightarrow>
        map_of (columns df) crit_col \<noteq> None \<and> \<not> supported_operator opr)"


text \<open>The errors raised by the four checks at the head of \<open>simulate_workflow\<close>.\<close>

fun is_configuration_error :: "error \<Rightarrow> bool" where
  "is_configuration_error NoValidData = True"
| "is_configuration_error (Step1Exceeds k n) = True"
| "is_configuration_error (Step2Exceeds k2 k1) = True"
| "is_configuration_error (Step3Exceeds k3 k2) = True"
| "is_configuration_error e = False"

text \<open>
  The outcomes of \<open>n\<close> trials run one after the other from generator state \<open>r\<close>; a trial
  is fully successful when it completed and its count equals \<open>step3_keep\<close>; the counts of
  the completed trials, in order, are what \<open>success_counts\<close> holds after the loop.
\<close>

fun trial_outcomes :: "('r \<Rightarrow> (abort + nat) \<times> 'r) \<Rightarrow> nat \<Rightarrow> 'r \<Rightarrow> (abort + nat) list" where
  "trial_outcomes body 0 r = []"
| "trial_outcomes body (Suc n) r = (case body r of (out, r') \<Rightarrow> out # trial_outcomes body n r')"

definition fully_successful :: "int \<Rightarrow> abort + nat \<Rightarrow> bool" where
  "fully_successful k3 out = (case out of Inl a \<Rightarrow> False | Inr c \<Rightarrow> int c = k3)"

definition recorded_counts :: "(abort + nat) list \<Rightarrow> nat list" where
  "recorded_counts outs = concat (map (\<lambda>out. case out of Inl a \<Rightarrow> [] | Inr c \<Rightarrow> [c]) outs)"

text \<open>
  The candidates of a count-valued parameter as the specification words them: the five
  multiples of the baseline, each rounded to the nearest integer (\<open>round\<close> takes a half up;
  the multiples compared below are not halves).
\<close>

definition rounded_candidates :: "int \<Rightarrow> int list" where
  "rounded_candidates base =
     map (\<lambda>m. round (real_of_int base * m)) [0.5, 0.75, 1, 1.25, 1.5]"

section \<open>Binary64 arithmetic: rounding\<close>

lemma pow2_powr: "pow2 q = 2 powr real_of_int q"
proof (cases "0 \<le> q")
  case True
  then show ?thesis by (simp add: pow2_def powr_realpow [symmetric])
next
  case False
  then have n: "real (nat (- q)) = - real_of_int q" by simp
  have "(2::real) ^ nat (- q) = 2 powr real (nat (- q))" by (simp add: powr_realpow)
  then have "(2::real) ^ nat (- q) = 2 powr (- real_of_int q)" by (simp only: n)
  with False show ?thesis by (simp add: pow2_def powr_minus_divide)
qed

lemma pow2_pos: "0 < pow2 q"
  by (simp add: pow2_powr)

lemma pow2_mono: "p \<le> q \<Longrightarrow> pow2 p \<le> pow2 q"
  by (simp add: pow2_powr)

lemma pow2_add: "pow2 (p + q) = pow2 p * pow2 q"
  by (simp add: pow2_powr powr_add)

lemma pow2_less_cancel: "pow2 p < pow2 q \<Longrightarrow> p < q"
  by (simp add: pow2_powr)

lemma pow2_nat: "0 \<le> d \<Longrightarrow> pow2 d = real_of_int (2 ^ nat d)"
  by (simp add: pow2_def)

lemma round_half_even_error: "\<bar>real_of_int (round_half_even y) - y\<bar> \<le> 1 / 2"
  unfolding round_half_even_def Let_def by (auto; linarith)

lemma round_half_even_nonneg: "0 \<le> y \<Longrightarrow> 0 \<le> round_half_even y"
  unfolding round_half_even_def Let_def by (auto; linarith?)

lemma round_half_even_le: "y \<le> real_of_int n \<Longrightarrow> round_half_even y \<le> n"
proof -
  assume a: "y \<le> real_of_int n"
  show ?thesis
  proof (cases "y = real_of_int n")
    case True
    then show ?thesis by (simp add: round_half_even_def)
  next
    case False
    with a have "y < real_of_int n" by simp
    then have "\<lfloor>y\<rfloor> < n" by (simp add: floor_less_iff)
    then show ?thesis unfolding round_half_even_def Let_def by auto
  qed
qed

lemma round_half_even_ge: "real_of_int n \<le> y \<Longrightarrow> n \<le> round_half_even y"
proof -
  assume "real_of_int n \<le> y"
  then have "n \<le> \<lfloor>y\<rfloor>" by (simp add: le_floor_iff)
  then show ?thesis unfolding round_half_even_def Let_def by auto
qed

lemma floor_log2_bounds:
  assumes "0 < x"
  shows "pow2 \<lfloor>log 2 x\<rfloor> \<le> x" and "x < pow2 (\<lfloor>log 2 x\<rfloor> + 1)"
proof -
  have "real_of_int \<lfloor>log 2 x\<rfloor> \<le> log 2 x" by simp
  then have "2 powr real_of_int \<lfloor>log 2 x\<rfloor> \<le> 2 powr log 2 x" by (simp only: powr_le_cancel_iff) 
  then show "pow2 \<lfloor>log 2 x\<rfloor> \<le> x" using assms by (simp add: pow2_powr)
  have "log 2 x < real_of_int (\<lfloor>log 2 x\<rfloor> + 1)" by linarith
  then have "2 powr log 2 x < 2 powr real_of_int (\<lfloor>log 2 x\<rfloor> + 1)" by (simp only: powr_less_cancel_iff)
  then show "x < pow2 (\<lfloor>log 2 x\<rfloor> + 1)" using assms by (simp add: pow2_powr)
qed

lemma floor_log2_eq:
  assumes "pow2 e \<le> x" and "x < pow2 (e + 1)"
  shows "\<lfloor>log 2 x\<rfloor> = e"
proof -
  have pos: "0 < x" using assms(1) pow2_pos [of e] by linarith
  have "real_of_int e \<le> log 2 x"
    using assms(1) pos by (simp add: pow2_powr le_log_iff)
  moreover have "log 2 x < real_of_int e + 1"
    using assms(2) pos by (simp add: pow2_powr log_less_iff add.commute)
  ultimately show ?thesis by linarith
qed

text \<open>
  Rounding a positive number: the spacing \<open>pow2 q\<close> used, and the result as a multiple of it.
\<close>

lemma binary64_positive:
  assumes "0 < x"
  shows "\<exists>e q. pow2 e \<le> x \<and> x < pow2 (e + 1) \<and> q = max (e - 52) (- 1074)
           \<and> binary64 x = real_of_int (round_half_even (x / pow2 q)) * pow2 q"
proof -
  define e where "e = \<lfloor>log 2 x\<rfloor>"
  have "pow2 e \<le> x" and "x < pow2 (e + 1)"
    using floor_log2_bounds [OF assms] by (simp_all add: e_def)
  moreover have "binary64 x
      = real_of_int (round_half_even (x / pow2 (max (e - 52) (- 1074)))) * pow2 (max (e - 52) (- 1074))"
    using assms by (simp add: binary64_def Let_def e_def)
  ultimately show ?thesis by blast
qed

lemma binary64_minus: "binary64 (- x) = - binary64 x"
  by (simp add: binary64_def Let_def sgn_minus)

lemma binary64_nonneg: "0 \<le> x \<Longrightarrow> 0 \<le> binary64 x"
proof (cases "x = 0")
  case True
  then show ?thesis by (simp add: binary64_def)
next
  case False
  assume "0 \<le> x"
  with False have pos: "0 < x" by simp
  from binary64_positive [OF pos] obtain q where
    b: "binary64 x = real_of_int (round_half_even (x / pow2 q)) * pow2 q" by blast
  have "0 \<le> x / pow2 q" using pos pow2_pos [of q] by simp
  then have "0 \<le> round_half_even (x / pow2 q)" by (rule round_half_even_nonneg)
  then show ?thesis using pow2_pos [of q] by (simp add: b)
qed

lemma binary64_abs: "\<bar>binary64 x\<bar> = binary64 \<bar>x\<bar>"
proof (cases "0 \<le> x")
  case True
  then show ?thesis using binary64_nonneg [of x] by simp
next
  case False
  then have "0 \<le> - x" by simp
  then have "0 \<le> binary64 (- x)" by (rule binary64_nonneg)
  with False show ?thesis by (simp add: binary64_minus)
qed

text \<open>
  Rounding is monotone against the values of the format: a value \<open>n * pow2 p\<close> of the
  format that bounds \<open>x\<close> bounds the rounded \<open>x\<close> too.
\<close>

lemma binary64_le:
  assumes "0 < x" and "x \<le> real_of_int n * pow2 p" and "- 1074 \<le> p" and "n \<le> 2 ^ 53"
  shows "binary64 x \<le> real_of_int n * pow2 p"
proof -
  from binary64_positive [OF assms(1)] obtain e q where
    lo: "pow2 e \<le> x" and hi: "x < pow2 (e + 1)" and q: "q = max (e - 52) (- 1074)"
    and b: "binary64 x = real_of_int (round_half_even (x / pow2 q)) * pow2 q" by blast
  have "real_of_int n \<le> real_of_int (2 ^ 53)" using assms(4) by (simp only: of_int_le_iff)
  then have "real_of_int n * pow2 p \<le> 2 ^ 53 * pow2 p"
    using pow2_pos [of p] by (intro mult_right_mono) simp_all
  also have "\<dots> = pow2 (53 + p)" by (simp add: pow2_add pow2_def [of 53])
  finally have "pow2 e \<le> pow2 (53 + p)" using lo assms(2) by linarith
  then have ele: "e \<le> 53 + p"
    by (simp add: pow2_powr)
  show ?thesis
  proof (cases "e = 53 + p")
    case True
    have "x \<le> pow2 (53 + p)"
      using assms(2) \<open>real_of_int n * pow2 p \<le> 2 ^ 53 * pow2 p\<close> \<open>2 ^ 53 * pow2 p = pow2 (53 + p)\<close>
      by linarith
    with lo True have x: "x = pow2 e" by simp
    have nx: "x \<le> real_of_int n * pow2 p" by (rule assms(2))
    have qe: "q = e - 52" using q True assms(3) by simp
    have "pow2 e = pow2 (52 + (e - 52))" by simp
    also have "\<dots> = 2 ^ 52 * pow2 (e - 52)" by (simp only: pow2_add) (simp add: pow2_def)
    finally have "x / pow2 q = real_of_int (2 ^ 52)"
      using pow2_pos [of "e - 52"] by (simp add: x qe)
    then have "round_half_even (x / pow2 q) = 2 ^ 52"
      by (simp add: round_half_even_def)
    then have "binary64 x = 2 ^ 52 * pow2 (e - 52)" by (simp add: b qe)
    then have "binary64 x = x" using \<open>pow2 (52 + (e - 52)) = 2 ^ 52 * pow2 (e - 52)\<close> x by simp
    with nx show ?thesis by simp
  next
    case False
    with ele have "e - 52 \<le> p" by simp
    with assms(3) have qp: "q \<le> p" by (simp add: q)
    define d where "d = p - q"
    have d0: "0 \<le> d" using qp by (simp add: d_def)
    have pp: "pow2 p = pow2 d * pow2 q" by (simp add: d_def pow2_add [symmetric])
    have "x / pow2 q \<le> real_of_int n * pow2 d"
      using assms(2) pow2_pos [of q] by (simp add: pp divide_le_eq)
    also have "\<dots> = real_of_int (n * 2 ^ nat d)" using d0 by (simp add: pow2_def)
    finally have "round_half_even (x / pow2 q) \<le> n * 2 ^ nat d" by (rule round_half_even_le)
    then have "real_of_int (round_half_even (x / pow2 q)) \<le> real_of_int (n * 2 ^ nat d)"
      by (simp only: of_int_le_iff)
    then have "binary64 x \<le> real_of_int (n * 2 ^ nat d) * pow2 q"
      unfolding b using pow2_pos [of q] by (intro mult_right_mono) simp_all
    also have "\<dots> = real_of_int n * pow2 p" using d0 by (simp add: pp pow2_def [of d])
    finally show ?thesis .
  qed
qed

lemma binary64_ge:
  assumes "real_of_int n * pow2 p \<le> x" and "0 < n" and "- 1074 \<le> p" and "n \<le> 2 ^ 53"
  shows "real_of_int n * pow2 p \<le> binary64 x"
proof -
  have pos: "0 < x"
  proof -
    have "0 < real_of_int n * pow2 p" using assms(2) pow2_pos [of p] by simp
    with assms(1) show ?thesis by linarith
  qed
  from binary64_positive [OF pos] obtain e q where
    lo: "pow2 e \<le> x" and hi: "x < pow2 (e + 1)" and q: "q = max (e - 52) (- 1074)"
    and b: "binary64 x = real_of_int (round_half_even (x / pow2 q)) * pow2 q" by blast
  show ?thesis
  proof (cases "q \<le> p")
    case True
    define d where "d = p - q"
    have d0: "0 \<le> d" using True by (simp add: d_def)
    have pp: "pow2 p = pow2 d * pow2 q" by (simp add: d_def pow2_add [symmetric])
    have "real_of_int (n * 2 ^ nat d) = real_of_int n * pow2 d" using d0 by (simp add: pow2_def)
    also have "\<dots> \<le> x / pow2 q"
      using assms(1) pow2_pos [of q] by (simp add: pp le_divide_eq)
    finally have "n * 2 ^ nat d \<le> round_half_even (x / pow2 q)" by (rule round_half_even_ge)
    then have "real_of_int (n * 2 ^ nat d) \<le> real_of_int (round_half_even (x / pow2 q))"
      by (simp only: of_int_le_iff)
    then have r: "real_of_int (n * 2 ^ nat d) * pow2 q \<le> binary64 x"
      unfolding b using pow2_pos [of q] by (intro mult_right_mono) simp_all
    have "real_of_int n * pow2 p = real_of_int (n * 2 ^ nat d) * pow2 q"
      using d0 by (simp add: pp pow2_def [of d])
    also note r
    finally show ?thesis .
  next
    case False
    with assms(3) have qe: "q = e - 52" and pq: "p + 1 \<le> q" by (simp_all add: q)
    have e: "pow2 e = 2 ^ 52 * pow2 q"
    proof -
      have "pow2 e = pow2 (52 + q)" by (simp add: qe)
      also have "\<dots> = 2 ^ 52 * pow2 q" by (simp only: pow2_add) (simp add: pow2_def)
      finally show ?thesis .
    qed
    have "real_of_int (2 ^ 52) \<le> x / pow2 q"
      using lo pow2_pos [of q] by (simp add: e le_divide_eq)
    then have "2 ^ 52 \<le> round_half_even (x / pow2 q)" by (rule round_half_even_ge)
    then have "real_of_int (2 ^ 52) \<le> real_of_int (round_half_even (x / pow2 q))"
      by (simp only: of_int_le_iff)
    then have "real_of_int (2 ^ 52) * pow2 q \<le> binary64 x"
      unfolding b using pow2_pos [of q] by (intro mult_right_mono) simp_all
    then have ge: "pow2 e \<le> binary64 x" by (simp add: e)
    have "real_of_int n \<le> real_of_int (2 ^ 53)" using assms(4) by (simp only: of_int_le_iff)
    then have "real_of_int n * pow2 p \<le> 2 ^ 53 * pow2 p"
      using pow2_pos [of p] by (intro mult_right_mono) simp_all
    also have "\<dots> = pow2 (53 + p)" by (simp add: pow2_add pow2_def [of 53])
    also have "\<dots> \<le> pow2 e" using pq by (intro pow2_mono) (simp add: qe)
    finally show ?thesis using ge by linarith
  qed
qed

lemma binary64_exact:
  assumes "\<bar>n\<bar> \<le> 2 ^ 53" and "- 1074 \<le> p"
  shows "binary64 (real_of_int n * pow2 p) = real_of_int n * pow2 p"
proof -
  have pos: "binary64 (real_of_int m * pow2 p) = real_of_int m * pow2 p"
    if "0 < m" and "m \<le> 2 ^ 53" for m
  proof -
    have x: "0 < real_of_int m * pow2 p" using that(1) pow2_pos [of p] by simp
    have "binary64 (real_of_int m * pow2 p) \<le> real_of_int m * pow2 p"
      using x _ assms(2) that(2) by (rule binary64_le) simp
    moreover have "real_of_int m * pow2 p \<le> binary64 (real_of_int m * pow2 p)"
      using _ that(1) assms(2) that(2) by (rule binary64_ge) simp
    ultimately show ?thesis by simp
  qed
  consider "n = 0" | "0 < n" | "n < 0" by linarith
  then show ?thesis
  proof cases
    case 1
    then show ?thesis by (simp add: binary64_def)
  next
    case 2
    moreover from 2 assms(1) have "n \<le> 2 ^ 53" by linarith
    ultimately show ?thesis by (rule pos)
  next
    case 3
    then have "0 < - n" by simp
    moreover from 3 assms(1) have "- n \<le> 2 ^ 53" by linarith
    ultimately have "binary64 (real_of_int (- n) * pow2 p) = real_of_int (- n) * pow2 p"
      by (rule pos)
    then have "binary64 (- (real_of_int n * pow2 p)) = - (real_of_int n * pow2 p)" by simp
    then show ?thesis by (simp only: binary64_minus neg_equal_iff_equal)
  qed
qed


lemma round_half_even_eq:
  assumes "\<bar>y - real_of_int n\<bar> < 1 / 2"
  shows "round_half_even y = n"
proof -
  have "\<bar>real_of_int (round_half_even y) - y\<bar> \<le> 1 / 2" by (rule round_half_even_error)
  with assms have "\<bar>real_of_int (round_half_even y) - real_of_int n\<bar> < 1" by linarith
  then have "\<bar>real_of_int (round_half_even y - n)\<bar> < 1" by simp
  then have "\<bar>round_half_even y - n\<bar> < 1" by (simp only: of_int_abs [symmetric] of_int_less_1_iff)
  then show ?thesis by simp
qed

lemma binary64_binade:
  assumes "pow2 e \<le> x" and "x < pow2 (e + 1)" and "- 1022 \<le> e"
  shows "binary64 x = real_of_int (round_half_even (x / pow2 (e - 52))) * pow2 (e - 52)"
proof -
  have pos: "0 < x" using assms(1) pow2_pos [of e] by linarith
  have "\<lfloor>log 2 x\<rfloor> = e" using assms(1,2) by (rule floor_log2_eq)
  moreover have "max (e - 52) (- 1074) = e - 52" using assms(3) by simp
  ultimately show ?thesis using pos by (simp add: binary64_def Let_def)
qed

lemma binary64_eq:
  assumes "pow2 e \<le> x" and "x < pow2 (e + 1)" and "- 1022 \<le> e"
    and "\<bar>x / pow2 (e - 52) - real_of_int n\<bar> < 1 / 2"
  shows "binary64 x = real_of_int n * pow2 (e - 52)"
  using binary64_binade [OF assms(1-3)] round_half_even_eq [OF assms(4)] by simp


lemma binary64_error:
  assumes "pow2 (- 1022) \<le> x"
  shows "\<bar>binary64 x - x\<bar> \<le> x / 2 ^ 53"
proof -
  have pos: "0 < x" using assms pow2_pos [of "- 1022"] by linarith
  define e where "e = \<lfloor>log 2 x\<rfloor>"
  have lo: "pow2 e \<le> x" and hi: "x < pow2 (e + 1)"
    using floor_log2_bounds [OF pos] by (simp_all add: e_def)
  have "- 1022 \<le> e"
  proof (rule ccontr)
    assume "\<not> - 1022 \<le> e"
    then have "e + 1 \<le> - 1022" by simp
    then have "pow2 (e + 1) \<le> pow2 (- 1022)" by (rule pow2_mono)
    with hi assms show False by linarith
  qed
  then have q: "max (e - 52) (- 1074) = e - 52" by simp
  define y where "y = x / pow2 (e - 52)"
  have v: "binary64 x = real_of_int (round_half_even y) * pow2 (e - 52)"
    using pos q by (simp add: binary64_def Let_def e_def [symmetric] y_def)
  have x: "x = y * pow2 (e - 52)" using pow2_pos [of "e - 52"] by (simp add: y_def)
  have "\<bar>binary64 x - x\<bar> = \<bar>real_of_int (round_half_even y) - y\<bar> * pow2 (e - 52)"
    using pow2_pos [of "e - 52"]
    by (subst x, subst v) (simp add: abs_mult left_diff_distrib [symmetric] del: of_int_diff)
  also have "\<dots> \<le> 1 / 2 * pow2 (e - 52)"
    using round_half_even_error [of y] pow2_pos [of "e - 52"] by (intro mult_right_mono) simp_all
  also have "\<dots> = pow2 e / 2 ^ 53"
    using pow2_add [of "e - 52" 52] by (simp add: pow2_def [of 52])
  also have "\<dots> \<le> x / 2 ^ 53" using lo by (simp add: divide_right_mono)
  finally show ?thesis .
qed

lemma binary64_normal:
  assumes "1 / 2 ^ 1000 \<le> x" and "x \<le> 2 ^ 1000"
  shows "\<bar>binary64 x - x\<bar> \<le> x / 2 ^ 53" and "\<not> pow2 1024 \<le> \<bar>binary64 x\<bar>"
proof -
  have "pow2 (- 1022) \<le> 1 / (2::real) ^ 1000"
    by (simp add: pow2_def)
  with assms(1) have n: "pow2 (- 1022) \<le> x" by linarith
  show err: "\<bar>binary64 x - x\<bar> \<le> x / 2 ^ 53" using n by (rule binary64_error)
  have pos: "0 < x" using n pow2_pos [of "- 1022"] by linarith
  have "x / 2 ^ 53 \<le> x" using pos by (simp add: divide_le_eq)
  with err have "\<bar>binary64 x\<bar> \<le> 2 * x" using pos by linarith
  also have "\<dots> \<le> 2 * 2 ^ 1000" using assms(2) by simp
  also have "\<dots> < pow2 1024" by (simp add: pow2_def)
  finally show "\<not> pow2 1024 \<le> \<bar>binary64 x\<bar>" by simp
qed

lemma quotient_range:
  assumes "0 < a" and "a \<le> 2 ^ 1000" and "0 < b" and "b \<le> 2 ^ 1000"
  shows "1 / 2 ^ 1000 \<le> real_of_int a / real_of_int b"
    and "real_of_int a / real_of_int b \<le> 2 ^ 1000"
proof -
  have a1: "1 \<le> real_of_int a" and b1: "1 \<le> real_of_int b" using assms by simp_all
  have "real_of_int a \<le> real_of_int (2 ^ 1000)" using assms(2) by (simp only: of_int_le_iff)
  then have au: "real_of_int a \<le> 2 ^ 1000" by simp
  have "real_of_int b \<le> real_of_int (2 ^ 1000)" using assms(4) by (simp only: of_int_le_iff)
  then have bu: "real_of_int b \<le> 2 ^ 1000" by simp
  show "1 / 2 ^ 1000 \<le> real_of_int a / real_of_int b"
    using a1 b1 bu by (intro frac_le) simp_all
  have "real_of_int a / real_of_int b \<le> 2 ^ 1000 / 1"
    using a1 b1 au by (intro frac_le) simp_all
  then show "real_of_int a / real_of_int b \<le> 2 ^ 1000" by simp
qed

lemma py_truediv_positive:
  assumes "0 < a" and "a \<le> 2 ^ 1000" and "0 < b" and "b \<le> 2 ^ 1000"
  shows "\<exists>v. py_truediv a b = Inr v
           \<and> \<bar>v - real_of_int a / real_of_int b\<bar> \<le> real_of_int a / real_of_int b / 2 ^ 53"
proof -
  note r = quotient_range [OF assms]
  note n = binary64_normal [OF r]
  have "py_truediv a b = Inr (binary64 (real_of_int a / real_of_int b))"
    using assms(3) n(2) by (simp add: py_truediv_def Let_def)
  with n(1) show ?thesis by simp
qed

lemma py_truediv_fraction:
  assumes "0 \<le> a" and "a \<le> b" and "0 < b"
  shows "\<exists>v. py_truediv a b = Inr v \<and> v = binary64 (real_of_int a / real_of_int b)
           \<and> 0 \<le> v \<and> v \<le> 1"
proof (cases "a = 0")
  case True
  then show ?thesis using assms(3) by (simp add: py_truediv_def binary64_def pow2_def)
next
  case False
  define x where "x = real_of_int a / real_of_int b"
  have pos: "0 < x" using False assms by (simp add: x_def)
  have le1: "x \<le> 1" using assms by (simp add: x_def)
  define e where "e = \<lfloor>log 2 x\<rfloor>"
  have "pow2 e \<le> x" using floor_log2_bounds(1) [OF pos] by (simp add: e_def)
  with le1 have e1: "pow2 e \<le> 1" by simp
  have "e \<le> 0"
  proof (rule ccontr)
    assume "\<not> e \<le> 0"
    then have "1 \<le> e" by simp
    then have "pow2 1 \<le> pow2 e" by (rule pow2_mono)
    with e1 show False by (simp add: pow2_def)
  qed
  define q where "q = max (e - 52) (- 1074)"
  have qneg: "q < 0" using \<open>e \<le> 0\<close> by (simp add: q_def)
  define n where "n = nat (- q)"
  have p: "pow2 q = 1 / 2 ^ n" using qneg by (simp add: pow2_def n_def)
  define y where "y = x / pow2 q"
  have y: "y = x * 2 ^ n" by (simp add: y_def p)
  have "y \<le> 1 * 2 ^ n" unfolding y using le1 by (intro mult_right_mono) simp_all
  then have "y \<le> real_of_int (2 ^ n)" by simp
  then have up: "round_half_even y \<le> 2 ^ n" by (rule round_half_even_le)
  have "0 \<le> y" using pos by (simp add: y)
  then have lo: "0 \<le> round_half_even y" by (rule round_half_even_nonneg)
  have v: "binary64 x = real_of_int (round_half_even y) / 2 ^ n"
    using pos by (simp add: binary64_def Let_def e_def [symmetric] q_def [symmetric] y p)
  have "real_of_int (round_half_even y) \<le> real_of_int (2 ^ n)"
    using up by (simp only: of_int_le_iff)
  then have v1: "binary64 x \<le> 1" by (simp add: v divide_le_eq_1)
  have v0: "0 \<le> binary64 x" using lo by (simp add: v)
  have "\<bar>binary64 x\<bar> \<le> 1" using v0 v1 by simp
  also have "\<dots> < pow2 1024" by (simp add: pow2_def)
  finally have "\<not> pow2 1024 \<le> \<bar>binary64 x\<bar>" by simp
  then have "py_truediv a b = Inr (binary64 x)"
    using assms(3) by (simp add: py_truediv_def Let_def x_def)
  with v0 v1 show ?thesis by (simp add: x_def)
qed

lemma truediv_not_config: "py_truediv a b = Inl e \<Longrightarrow> \<not> is_configuration_error e"
  by (auto simp: py_truediv_def Let_def split: if_splits)

section \<open>The product of an integer and a float\<close>

lemma py_int_scaled:
  assumes "0 < q" and "0 \<le> p"
  shows "py_int (real_of_int s * (real_of_int p / real_of_int q)) = sgn s * (p * \<bar>s\<bar> div q)"
proof (cases "0 \<le> s")
  case True
  then have "0 \<le> real_of_int s * (real_of_int p / real_of_int q)" using assms by simp
  moreover have "real_of_int s * (real_of_int p / real_of_int q) = real_of_int (p * s) / real_of_int q"
    by simp
  ultimately have "py_int (real_of_int s * (real_of_int p / real_of_int q)) = (p * s) div q"
    unfolding py_int_def by (simp only: if_True floor_divide_of_int_eq)
  then show ?thesis using True by (cases "s = 0") (auto simp: sgn_if)
next
  case False
  then have neg: "s < 0" by simp
  show ?thesis
  proof (cases "p = 0")
    case True
    then show ?thesis by (simp add: py_int_def)
  next
    case False
    with assms have "0 < p" by simp
    then have "0 < real_of_int p / real_of_int q" using assms by simp
    then have "real_of_int s * (real_of_int p / real_of_int q) < 0"
      using neg by (intro mult_neg_pos) simp_all
    moreover have "real_of_int s * (real_of_int p / real_of_int q) = - (real_of_int (p * - s) / real_of_int q)"
      by simp
    ultimately have "py_int (real_of_int s * (real_of_int p / real_of_int q)) = - ((p * - s) div q)"
      unfolding py_int_def by (simp only: ceiling_minus floor_divide_of_int_eq) simp
    then show ?thesis using neg by (simp add: sgn_if)
  qed
qed

lemma real_of_int_bound: "\<bar>n\<bar> \<le> 2 ^ k \<Longrightarrow> \<bar>real_of_int n\<bar> \<le> 2 ^ k"
proof -
  assume "\<bar>n\<bar> \<le> 2 ^ k"
  then have "real_of_int \<bar>n\<bar> \<le> real_of_int (2 ^ k)" by (simp only: of_int_le_iff)
  then show ?thesis by simp
qed

lemma py_float_exact:
  assumes "\<bar>n\<bar> \<le> 2 ^ 53"
  shows "py_float n = Inr (real_of_int n)"
proof -
  have "binary64 (real_of_int n * pow2 0) = real_of_int n * pow2 0"
    using assms by (rule binary64_exact) simp
  then have b: "binary64 (real_of_int n) = real_of_int n" by (simp add: pow2_def)
  have "\<bar>real_of_int n\<bar> \<le> 2 ^ 53" using assms by (rule real_of_int_bound)
  also have "(2 :: real) ^ 53 < pow2 1024" by (simp add: pow2_def)
  finally show ?thesis by (simp add: py_float_def b)
qed

text \<open>
  A product that needs no rounding: \<open>n\<close> times \<open>m / 2 ^ k\<close> with \<open>m * n\<close> of at most 53
  bits. Its \<^verbatim>\<open>int\<close> is the exact product truncated toward zero.
\<close>

lemma int_of_product_exact:
  assumes "\<bar>m * n\<bar> \<le> 2 ^ 53" and "\<bar>n\<bar> \<le> 2 ^ 53" and "0 \<le> m" and "k \<le> 1074"
  shows "int_of_product n (real_of_int m / 2 ^ k) = Inr (sgn n * (m * \<bar>n\<bar> div 2 ^ k))"
proof -
  have f: "py_float n = Inr (real_of_int n)" using assms(2) by (rule py_float_exact)
  have pk: "pow2 (- int k) = 1 / 2 ^ k" by (simp add: pow2_def)
  have x: "real_of_int n * (real_of_int m / 2 ^ k) = real_of_int (m * n) * pow2 (- int k)"
    by (simp add: pk)
  have "binary64 (real_of_int (m * n) * pow2 (- int k)) = real_of_int (m * n) * pow2 (- int k)"
    using assms(1) by (rule binary64_exact) (use assms(4) in simp)
  then have b: "binary64 (real_of_int n * (real_of_int m / 2 ^ k))
                  = real_of_int n * (real_of_int m / 2 ^ k)"
    by (simp only: x)
  have "\<bar>real_of_int (m * n)\<bar> \<le> 2 ^ 53" using assms(1) by (rule real_of_int_bound)
  moreover have "(1 :: real) \<le> 2 ^ k" by simp
  ultimately have "\<bar>real_of_int (m * n)\<bar> / 2 ^ k \<le> 2 ^ 53 / 1"
    by (intro frac_le) simp_all
  then have "\<bar>real_of_int n * (real_of_int m / 2 ^ k)\<bar> \<le> 2 ^ 53"
    by (simp add: abs_mult mult.commute)
  also have "(2 :: real) ^ 53 < pow2 1024" by (simp add: pow2_def)
  finally have small: "\<not> pow2 1024 \<le> \<bar>real_of_int n * (real_of_int m / 2 ^ k)\<bar>" by simp
  have "py_int (real_of_int n * (real_of_int m / real_of_int (2 ^ k)))
          = sgn n * (m * \<bar>n\<bar> div 2 ^ k)"
    using _ assms(3) by (rule py_int_scaled) simp
  then have t: "py_int (real_of_int n * (real_of_int m / 2 ^ k)) = sgn n * (m * \<bar>n\<bar> div 2 ^ k)"
    by simp
  show ?thesis
    by (simp only: int_of_product_def f sum.case Let_def b small if_False t)
qed

lemma keep_candidates_exact:
  assumes "5 * \<bar>b\<bar> \<le> 2 ^ 53"
  shows "keep_candidates b =
           Inr [sgn b * (\<bar>b\<bar> div 2), sgn b * (3 * \<bar>b\<bar> div 4), b,
                sgn b * (5 * \<bar>b\<bar> div 4), sgn b * (3 * \<bar>b\<bar> div 2)]"
proof -
  have n: "\<bar>b\<bar> \<le> 2 ^ 53" and n1: "\<bar>1 * b\<bar> \<le> 2 ^ 53" and n3: "\<bar>3 * b\<bar> \<le> 2 ^ 53"
    and n5: "\<bar>5 * b\<bar> \<le> 2 ^ 53"
    using assms by (simp_all add: abs_mult)
  have "int_of_product b (real_of_int 1 / 2 ^ 1) = Inr (sgn b * (1 * \<bar>b\<bar> div 2 ^ 1))"
    using n1 n by (rule int_of_product_exact) simp_all
  then have c1: "int_of_product b 0.5 = Inr (sgn b * (\<bar>b\<bar> div 2))" by simp
  have "int_of_product b (real_of_int 3 / 2 ^ 2) = Inr (sgn b * (3 * \<bar>b\<bar> div 2 ^ 2))"
    using n3 n by (rule int_of_product_exact) simp_all
  then have c2: "int_of_product b 0.75 = Inr (sgn b * (3 * \<bar>b\<bar> div 4))" by simp
  have "int_of_product b (real_of_int 5 / 2 ^ 2) = Inr (sgn b * (5 * \<bar>b\<bar> div 2 ^ 2))"
    using n5 n by (rule int_of_product_exact) simp_all
  then have c4: "int_of_product b 1.25 = Inr (sgn b * (5 * \<bar>b\<bar> div 4))" by simp
  have "int_of_product b (real_of_int 3 / 2 ^ 1) = Inr (sgn b * (3 * \<bar>b\<bar> div 2 ^ 1))"
    using n3 n by (rule int_of_product_exact) simp_all
  then have c5: "int_of_product b 1.5 = Inr (sgn b * (3 * \<bar>b\<bar> div 2))" by simp
  show ?thesis by (simp only: keep_candidates_def c1 c2 c4 c5 sum.case)
qed

lemma param_ranges_exact:
  assumes "5 * \<bar>step1_keep b\<bar> \<le> 2 ^ 53" and "5 * \<bar>step2_keep b\<bar> \<le> 2 ^ 53"
  shows "param_ranges b =
     Inr [(''step1_keep'',
            [sgn (step1_keep b) * (\<bar>step1_keep b\<bar> div 2), sgn (step1_keep b) * (3 * \<bar>step1_keep b\<bar> div 4),
             step1_keep b,
             sgn (step1_keep b) * (5 * \<bar>step1_keep b\<bar> div 4), sgn (step1_keep b) * (3 * \<bar>step1_keep b\<bar> div 2)]),
          (''step2_keep'',
            [sgn (step2_keep b) * (\<bar>step2_keep b\<bar> div 2), sgn (step2_keep b) * (3 * \<bar>step2_keep b\<bar> div 4),
             step2_keep b,
             sgn (step2_keep b) * (5 * \<bar>step2_keep b\<bar> div 4), sgn (step2_keep b) * (3 * \<bar>step2_keep b\<bar> div 2)]),
          (''top_x_percent'', [1, 2, 5, 10, 15])]"
  by (simp only: param_ranges_def keep_candidates_exact [OF assms(1)]
      keep_candidates_exact [OF assms(2)] sum.case)

text \<open>
  Beyond the bound the product is rounded before it is truncated: five quarters of
  1801439850948199 is 2251799813685248.75, which rounds to 2251799813685249.
\<close>

lemma product_rounded_first:
  "int_of_product 1801439850948199 1.25 = Inr 2251799813685249
   \<and> 5 * \<bar>1801439850948199\<bar> div 4 = (2251799813685248 :: int)
   \<and> \<not> 5 * \<bar>1801439850948199 :: int\<bar> \<le> 2 ^ 53"
proof -
  have f: "py_float 1801439850948199 = Inr 1801439850948199"
    using py_float_exact [of 1801439850948199] by simp
  have "binary64 (9007199254740995 / 4)
          = real_of_int (round_half_even (9007199254740995 / 4 / pow2 (51 - 52))) * pow2 (51 - 52)"
    by (rule binary64_binade) (simp_all add: pow2_def)
  also have "9007199254740995 / 4 / pow2 (51 - 52) = 9007199254740995 / 2"
    by (simp add: pow2_def)
  also have "round_half_even (9007199254740995 / 2) = 4503599627370498"
    by (simp add: round_half_even_def)
  finally have b: "binary64 (9007199254740995 / 4) = 2251799813685249"
    by (simp add: pow2_def)
  have "int_of_product 1801439850948199 1.25 = Inr 2251799813685249"
    by (simp add: int_of_product_def f b py_int_def pow2_def)
  then show ?thesis by simp
qed






section \<open>The criteria filter: operators\<close>

lemma column_length:
  "table_ok df \<Longrightarrow> map_of (columns df) c = Some vals \<Longrightarrow> length vals = nrows df"
  by (auto simp: table_ok_def list_all_iff dest!: map_of_SomeD)

lemma np_take_rows:
  "list_all (np_index (length a)) idx \<Longrightarrow>
     np_take a idx = Inr (map (\<lambda>i. a ! np_pos (length a) i) idx)"
  by (simp add: np_take_def)

lemma criteria_loop_step:
  assumes "table_ok df" and "row_positions df indices" and "length m = length indices"
  shows "offending df (c, opr, t) \<Longrightarrow>
           criteria_loop df ((c, opr, t) # cs) indices m = Inl (UnsupportedOperator opr)"
    and "\<not> offending df (c, opr, t) \<Longrightarrow>
           \<exists>m'. length m' = length indices \<and>
             criteria_loop df ((c, opr, t) # cs) indices m = criteria_loop df cs indices m'"
proof -
  have take: "np_take vals indices = Inr (map (\<lambda>i. vals ! np_pos (length vals) i) indices)"
    if "map_of (columns df) c = Some vals" for vals
    using that assms(1,2) column_length [of df c vals]
    by (simp add: np_take_rows row_positions_def)
  show "criteria_loop df ((c, opr, t) # cs) indices m = Inl (UnsupportedOperator opr)"
    if "offending df (c, opr, t)"
    using that take by (auto simp: offending_def supported_operator_def)
  show "\<exists>m'. length m' = length indices \<and>
             criteria_loop df ((c, opr, t) # cs) indices m = criteria_loop df cs indices m'"
    if "\<not> offending df (c, opr, t)"
  proof (cases "map_of (columns df) c")
    case None
    then show ?thesis using assms(3) by auto
  next
    case (Some vals)
    define col_vals where "col_vals = map (\<lambda>i. vals ! np_pos (length vals) i) indices"
    have tk: "np_take vals indices = Inr col_vals"
      using take [OF Some] by (simp add: col_vals_def)
    have len: "length (map2 (\<and>) m (map p col_vals)) = length indices" for p
      using assms(3) by (simp add: col_vals_def)
    from that Some have "supported_operator opr" by (simp add: offending_def)
    then consider "opr = ''>=''" | "opr = ''<=''" | "opr = ''=''"
      by (auto simp: supported_operator_def)
    then show ?thesis
    proof cases
      case 1
      have "criteria_loop df ((c, opr, t) # cs) indices m
              = criteria_loop df cs indices (map2 (\<and>) m (map (\<lambda>v. v \<ge> t) col_vals))"
        using Some tk 1 by simp
      with len show ?thesis by blast
    next
      case 2
      have "criteria_loop df ((c, opr, t) # cs) indices m
              = criteria_loop df cs indices (map2 (\<and>) m (map (\<lambda>v. v \<le> t) col_vals))"
        using Some tk 2 by simp
      with len show ?thesis by blast
    next
      case 3
      have "criteria_loop df ((c, opr, t) # cs) indices m
              = criteria_loop df cs indices (map2 (\<and>) m (map (eq_within t) col_vals))"
        using Some tk 3 by simp
      with len show ?thesis by blast
    qed
  qed
qed

lemma criteria_loop_char:
  assumes "table_ok df" and "row_positions df indices"
  shows "length m = length indices \<Longrightarrow>
    (find (offending df) cs = None \<longrightarrow>
       (\<exists>m'. criteria_loop df cs indices m = Inr m' \<and> length m' = length indices)) \<and>
    (\<forall>c opr t. find (offending df) cs = Some (c, opr, t) \<longrightarrow>
       criteria_loop df cs indices m = Inl (UnsupportedOperator opr))"
proof (induction cs arbitrary: m)
  case Nil
  then show ?case by simp
next
  case (Cons crit cs)
  obtain c opr t where crit: "crit = (c, opr, t)" by (cases crit) auto
  show ?case
  proof (cases "offending df crit")
    case True
    then show ?thesis
      using criteria_loop_step(1) [OF assms Cons.prems, of c opr t cs] by (simp add: crit)
  next
    case False
    then obtain m' where "length m' = length indices"
      and "criteria_loop df (crit # cs) indices m = criteria_loop df cs indices m'"
      using criteria_loop_step(2) [OF assms Cons.prems, of c opr t cs] by (auto simp: crit)
    then show ?thesis using False Cons.IH [of m'] by simp
  qed
qed

lemma criteria_loop_append:
  "criteria_loop df (cs1 @ cs2) indices m =
     (case criteria_loop df cs1 indices m of Inl e \<Rightarrow> Inl e | Inr m' \<Rightarrow> criteria_loop df cs2 indices m')"
  by (induction df cs1 indices m rule: criteria_loop.induct) (auto split: option.splits sum.splits)

text \<open>
  An index outside the column is met before the operator is looked at: line 40 raises
  IndexError, whatever the operator of the criterion.
\<close>

lemma out_of_range_index_raises:
  assumes "map_of (columns df) c = Some vals"
    and "\<not> list_all (np_index (length vals)) indices"
  shows "apply_criteria_filter df ((c, opr, t) # cs) indices = Inl IndexError"
  using assms by (simp add: apply_criteria_filter_def np_take_def)

text \<open>
  The literal \<^verbatim>\<open>1e-10\<close> is \<open>7737125245533627 / 2 ^ 86\<close>, a little above \<open>1 / 10 ^ 10\<close>; the
  values of the format next to it are \<open>1 / 2 ^ 86\<close> apart.
\<close>

lemma epsilon_literal: "binary64 (1 / 10 ^ 10) = 7737125245533627 / 2 ^ 86"
proof -
  have "binary64 (1 / 10 ^ 10) = real_of_int 7737125245533627 * pow2 (- 34 - 52)"
    by (rule binary64_eq) (simp_all add: pow2_def)
  then show ?thesis by (simp add: pow2_def)
qed

text \<open>
  A rounded difference is below the literal exactly when the difference is at most the
  midpoint between the literal and the value of the format before it: the midpoint itself
  rounds down, to the even neighbour.
\<close>

lemma rounds_below_epsilon:
  assumes "0 \<le> x"
  shows "binary64 x < 7737125245533627 / 2 ^ 86 \<longleftrightarrow> x \<le> 15474250491067253 / 2 ^ 87"
proof
  assume le: "x \<le> 15474250491067253 / 2 ^ 87"
  consider "x = 0" | "0 < x" "x \<le> 7737125245533626 / 2 ^ 86" | "7737125245533626 / 2 ^ 86 < x"
    using assms by linarith
  then show "binary64 x < 7737125245533627 / 2 ^ 86"
  proof cases
    case 1
    then show ?thesis by (simp add: binary64_def)
  next
    case 2
    have "binary64 x \<le> real_of_int 7737125245533626 * pow2 (- 86)"
      using 2(1) by (rule binary64_le) (use 2(2) in \<open>simp_all add: pow2_def\<close>)
    then show ?thesis by (simp add: pow2_def)
  next
    case 3
    have "binary64 x = real_of_int (round_half_even (x / pow2 (- 34 - 52))) * pow2 (- 34 - 52)"
      by (rule binary64_binade) (use 3 le in \<open>simp_all add: pow2_def\<close>)
    then have b: "binary64 x = real_of_int (round_half_even (x * 2 ^ 86)) / 2 ^ 86"
      by (simp add: pow2_def)
    define y where "y = x * 2 ^ 86"
    have y1: "7737125245533626 < y" and y2: "y \<le> 7737125245533626 + 1 / 2"
      using 3 le by (simp_all add: y_def field_simps)
    have fl: "\<lfloor>y\<rfloor> = 7737125245533626"
      using y1 y2 by (intro floor_unique) simp_all
    have "round_half_even y = 7737125245533626"
      using y2 by (simp add: round_half_even_def fl)
    then have "binary64 x = 7737125245533626 / 2 ^ 86"
      unfolding b y_def [symmetric] by simp
    then show ?thesis by simp
  qed
next
  assume lt: "binary64 x < 7737125245533627 / 2 ^ 86"
  show "x \<le> 15474250491067253 / 2 ^ 87"
  proof (rule ccontr)
    assume "\<not> x \<le> 15474250491067253 / 2 ^ 87"
    then have gt: "15474250491067253 / 2 ^ 87 < x" by simp
    show False
    proof (cases "7737125245533627 / 2 ^ 86 \<le> x")
      case True
      have "real_of_int 7737125245533627 * pow2 (- 86) \<le> binary64 x"
        by (rule binary64_ge) (use True in \<open>simp_all add: pow2_def\<close>)
      with lt show False by (simp add: pow2_def)
    next
      case False
      have "binary64 x = real_of_int 7737125245533627 * pow2 (- 34 - 52)"
        by (rule binary64_eq) (use gt False in \<open>simp_all add: pow2_def field_simps\<close>)
      with lt show False by (simp add: pow2_def)
    qed
  qed
qed

lemma eq_within_iff: "eq_within t v \<longleftrightarrow> \<bar>v - t\<bar> \<le> 15474250491067253 / 2 ^ 87"
proof -
  have "eq_within t v \<longleftrightarrow> binary64 \<bar>v - t\<bar> < 7737125245533627 / 2 ^ 86"
    by (simp only: eq_within_def epsilon_literal binary64_abs)
  then show ?thesis using rounds_below_epsilon [of "\<bar>v - t\<bar>"] by simp
qed

lemma single_eq_criterion:
  assumes "map_of (columns df) c = Some vals"
    and "list_all (np_index (length vals)) indices"
  shows "apply_criteria_filter df [(c, ''='', t)] indices
           = Inr (map (\<lambda>i. eq_within t (vals ! np_pos (length vals) i)) indices)"
  using assms
  by (simp add: apply_criteria_filter_def np_take_def zip_replicate1 map2_map_map o_def)

lemma single_row_eq:
  "apply_criteria_filter \<lparr>nrows = 1, columns = [(c, [v])]\<rparr> [(c, ''='', t)] [0]
     = Inr [eq_within t v]"
  by (simp add: apply_criteria_filter_def np_take_def np_index_def np_pos_def)

lemma billionth_literal: "binary64 (1 / 10 ^ 9) = 4835703278458517 / 2 ^ 82"
proof -
  have "binary64 (1 / 10 ^ 9) = real_of_int 4835703278458517 * pow2 (- 30 - 52)"
    by (rule binary64_eq) (simp_all add: pow2_def)
  then show ?thesis by (simp add: pow2_def)
qed

lemma billionth_absorbed: "binary64 (2 ^ 24 + 4835703278458517 / 2 ^ 82) = 2 ^ 24"
proof -
  have "binary64 (2 ^ 24 + 4835703278458517 / 2 ^ 82) = real_of_int (2 ^ 52) * pow2 (24 - 52)"
    by (rule binary64_eq) (simp_all add: pow2_def)
  then show ?thesis by (simp add: pow2_def)
qed

text \<open>
  Claim C7, as amended. The \<open>=\<close> operator of the criteria filter is epsilon equality in
  binary64: for a single \<open>=\<close> criterion on a column of the table, the mask says for each
  index whether the difference of the value and the threshold, rounded to binary64, is
  below the literal \<^verbatim>\<open>1e-10\<close> in absolute value, and the literal is the binary64 value
  \<open>7737125245533627 / 2 ^ 86\<close>. In terms of the exact difference, a row passes exactly when
  \<open>\<bar>value - threshold\<bar>\<close> is at most the literal minus \<open>1 / 2 ^ 87\<close>, which lies below
  \<open>1 / 10 ^ 10\<close>. So a value within \<open>1 / 10 ^ 11\<close> of the threshold passes, and a value at a
  distance of \<open>1 / 10 ^ 10\<close> or more, \<open>1 / 10 ^ 9\<close> in particular, fails.
\<close>

theorem eq_operator_epsilon:
  assumes "map_of (columns df) c = Some vals"
    and "list_all (np_index (length vals)) indices"
  shows "apply_criteria_filter df [(c, ''='', t)] indices
           = Inr (map (\<lambda>i. \<bar>binary64 (vals ! np_pos (length vals) i - t)\<bar> < binary64 (1 / 10 ^ 10))
                    indices)
       \<and> binary64 (1 / 10 ^ 10) = 7737125245533627 / 2 ^ 86
       \<and> apply_criteria_filter df [(c, ''='', t)] indices
           = Inr (map (\<lambda>i. \<bar>vals ! np_pos (length vals) i - t\<bar>
                              \<le> 7737125245533627 / 2 ^ 86 - 1 / 2 ^ 87) indices)
       \<and> 7737125245533627 / 2 ^ 86 - 1 / 2 ^ 87 < (1 / 10 ^ 10 :: real)
       \<and> (\<forall>v. \<bar>v - t\<bar> \<le> 1 / 10 ^ 11 \<longrightarrow>
             apply_criteria_filter \<lparr>nrows = 1, columns = [(c, [v])]\<rparr> [(c, ''='', t)] [0]
               = Inr [True])
       \<and> (\<forall>v. 1 / 10 ^ 10 \<le> \<bar>v - t\<bar> \<longrightarrow>
             apply_criteria_filter \<lparr>nrows = 1, columns = [(c, [v])]\<rparr> [(c, ''='', t)] [0]
               = Inr [False])
       \<and> (\<forall>v. 1 / 10 ^ 9 \<le> \<bar>v - t\<bar> \<longrightarrow>
             apply_criteria_filter \<lparr>nrows = 1, columns = [(c, [v])]\<rparr> [(c, ''='', t)] [0]
               = Inr [False])"
proof -
  have m: "(15474250491067253 / 2 ^ 87 :: real) = 7737125245533627 / 2 ^ 86 - 1 / 2 ^ 87"
    by simp
  have iff: "eq_within t v \<longleftrightarrow> \<bar>v - t\<bar> \<le> 7737125245533627 / 2 ^ 86 - 1 / 2 ^ 87" for v
    by (simp only: eq_within_iff m)
  have below: "7737125245533627 / 2 ^ 86 - 1 / 2 ^ 87 < (1 / 10 ^ 10 :: real)" by simp
  have a: "apply_criteria_filter df [(c, ''='', t)] indices
           = Inr (map (\<lambda>i. \<bar>binary64 (vals ! np_pos (length vals) i - t)\<bar> < binary64 (1 / 10 ^ 10))
                    indices)"
    using single_eq_criterion [OF assms, of t] by (simp only: eq_within_def)
  have b: "apply_criteria_filter df [(c, ''='', t)] indices
           = Inr (map (\<lambda>i. \<bar>vals ! np_pos (length vals) i - t\<bar>
                              \<le> 7737125245533627 / 2 ^ 86 - 1 / 2 ^ 87) indices)"
    using single_eq_criterion [OF assms, of t] by (simp only: iff)
  have p: "apply_criteria_filter \<lparr>nrows = 1, columns = [(c, [v])]\<rparr> [(c, ''='', t)] [0]
               = Inr [True]" if "\<bar>v - t\<bar> \<le> 1 / 10 ^ 11" for v
  proof -
    have "(1 / 10 ^ 11 :: real) \<le> 7737125245533627 / 2 ^ 86 - 1 / 2 ^ 87" by simp
    with that have "eq_within t v" unfolding iff by linarith
    then show ?thesis by (simp only: single_row_eq)
  qed
  have f: "apply_criteria_filter \<lparr>nrows = 1, columns = [(c, [v])]\<rparr> [(c, ''='', t)] [0]
               = Inr [False]" if "1 / 10 ^ 10 \<le> \<bar>v - t\<bar>" for v
  proof -
    from that below have "\<not> eq_within t v" unfolding iff by linarith
    then show ?thesis by (simp only: single_row_eq)
  qed
  have g: "apply_criteria_filter \<lparr>nrows = 1, columns = [(c, [v])]\<rparr> [(c, ''='', t)] [0]
               = Inr [False]" if "1 / 10 ^ 9 \<le> \<bar>v - t\<bar>" for v
  proof -
    have "(1 / 10 ^ 10 :: real) \<le> 1 / 10 ^ 9" by simp
    with that have "1 / 10 ^ 10 \<le> \<bar>v - t\<bar>" by linarith
    then show ?thesis by (rule f)
  qed
  show ?thesis
    using a epsilon_literal b below p f g by blast
qed

theorem eq_operator_epsilon_witness:
  "map_of (columns \<lparr>nrows = 4, columns = [(''purity'',
        [1, 4503599627415532 / 2 ^ 52, 4503599631874096 / 2 ^ 52, 2])]\<rparr>) ''purity''
       = Some [1, 4503599627415532 / 2 ^ 52, 4503599631874096 / 2 ^ 52, 2]
   \<and> list_all (np_index (length [1 :: real, 4503599627415532 / 2 ^ 52,
        4503599631874096 / 2 ^ 52, 2])) [0, 1, 2, - 1]
   \<and> apply_criteria_filter \<lparr>nrows = 4, columns = [(''purity'',
        [1, 4503599627415532 / 2 ^ 52, 4503599631874096 / 2 ^ 52, 2])]\<rparr>
         [(''purity'', ''='', 1)] [0, 1, 2, - 1] = Inr [True, True, False, False]
   \<and> \<bar>4503599627415532 / 2 ^ 52 - 1 :: real\<bar> \<le> 1 / 10 ^ 11 + 1 / 10 ^ 16
   \<and> 1 / 10 ^ 9 \<le> \<bar>4503599631874096 / 2 ^ 52 - 1 :: real\<bar>"
proof -
  have c: "map_of (columns \<lparr>nrows = 4, columns = [(''purity'',
        [1, 4503599627415532 / 2 ^ 52, 4503599631874096 / 2 ^ 52, 2])]\<rparr>) ''purity''
       = Some [1, 4503599627415532 / 2 ^ 52, 4503599631874096 / 2 ^ 52, 2]"
    by simp
  have i: "list_all (np_index (length [1 :: real, 4503599627415532 / 2 ^ 52,
        4503599631874096 / 2 ^ 52, 2])) [0, 1, 2, - 1]"
    by (simp add: np_index_def)
  let ?vals = "[1 :: real, 4503599627415532 / 2 ^ 52, 4503599631874096 / 2 ^ 52, 2]"
  from eq_operator_epsilon [OF c i, of 1]
  have "apply_criteria_filter \<lparr>nrows = 4, columns = [(''purity'', ?vals)]\<rparr>
         [(''purity'', ''='', 1)] [0, 1, 2, - 1]
       = Inr (map (\<lambda>i. \<bar>?vals ! np_pos (length ?vals) i - 1\<bar>
                              \<le> 7737125245533627 / 2 ^ 86 - 1 / 2 ^ 87) [0, 1, 2, - 1])"
    by blast
  then have r: "apply_criteria_filter \<lparr>nrows = 4, columns = [(''purity'', ?vals)]\<rparr>
         [(''purity'', ''='', 1)] [0, 1, 2, - 1] = Inr [True, True, False, False]"
    by (simp add: np_pos_def)
  show ?thesis
    using c i r by simp
qed

text \<open>
  Claim C7, as stated, fails. The value \<^verbatim>\<open>nextafter(1e-10, 0)\<close> and the threshold
  \<^verbatim>\<open>-8e-27\<close> differ by less than \<open>1 / 10 ^ 10\<close>, and the row does not pass: the difference
  rounds up to the literal. And the float \<^verbatim>\<open>2**24 + 1e-9\<close> is \<^verbatim>\<open>2**24\<close> itself, so
  against the threshold \<^verbatim>\<open>2**24\<close> the value \<^verbatim>\<open>threshold + 1e-9\<close> passes.
\<close>

theorem eq_operator_rounding_counterexample:
  "apply_criteria_filter \<lparr>nrows = 1, columns = [(''purity'', [7737125245533626 / 2 ^ 86])]\<rparr>
       [(''purity'', ''='', - (5575186299632656 / 2 ^ 139))] [0] = Inr [False]
   \<and> \<bar>7737125245533626 / 2 ^ 86 - (- (5575186299632656 / 2 ^ 139))\<bar> < (1 / 10 ^ 10 :: real)
   \<and> binary64 (2 ^ 24 + binary64 (1 / 10 ^ 9)) = 2 ^ 24
   \<and> apply_criteria_filter
         \<lparr>nrows = 1, columns = [(''purity'', [binary64 (2 ^ 24 + binary64 (1 / 10 ^ 9))])]\<rparr>
         [(''purity'', ''='', 2 ^ 24)] [0] = Inr [True]"
proof -
  have "\<not> eq_within (- (5575186299632656 / 2 ^ 139)) (7737125245533626 / 2 ^ 86)"
    by (simp add: eq_within_iff)
  then have a: "apply_criteria_filter
       \<lparr>nrows = 1, columns = [(''purity'', [7737125245533626 / 2 ^ 86])]\<rparr>
       [(''purity'', ''='', - (5575186299632656 / 2 ^ 139))] [0] = Inr [False]"
    by (simp only: single_row_eq)
  have b: "\<bar>7737125245533626 / 2 ^ 86 - (- (5575186299632656 / 2 ^ 139))\<bar> < (1 / 10 ^ 10 :: real)"
    by simp
  have c: "binary64 (2 ^ 24 + binary64 (1 / 10 ^ 9)) = 2 ^ 24"
    by (simp only: billionth_literal billionth_absorbed)
  have "eq_within (2 ^ 24) (2 ^ 24)" by (simp add: eq_within_iff)
  then have d: "apply_criteria_filter
         \<lparr>nrows = 1, columns = [(''purity'', [binary64 (2 ^ 24 + binary64 (1 / 10 ^ 9))])]\<rparr>
         [(''purity'', ''='', 2 ^ 24)] [0] = Inr [True]"
    by (simp only: single_row_eq c)
  show ?thesis by (intro conjI) (fact a b c d)+
qed

text \<open>
  Claim C8, as amended. On a table and a sequence of its row positions (indices from
  \<open>-len(df)\<close> to \<open>len(df) - 1\<close>), the filter raises the unsupported-operator error exactly
  when some criterion on a column of the table has an operator other than \<open>>=\<close>, \<open><=\<close>
  and \<open>=\<close>; the error names the operator of the first such criterion, and otherwise the
  filter returns a mask as long as the index sequence. For any index sequence, a criterion
  whose column is not in the table is skipped whatever its operator (removing it from the
  list does not change the result), and an index outside the column raises IndexError at
  the first criterion if its column is in the table, whatever its operator.
\<close>

theorem unsupported_operator_raises:
  "(table_ok df \<and> row_positions df indices \<longrightarrow>
      (case find (offending df) criteria of
         None \<Rightarrow> (\<exists>m. apply_criteria_filter df criteria indices = Inr m \<and> length m = length indices)
       | Some (c, opr, t) \<Rightarrow>
           \<not> supported_operator opr \<and>
           apply_criteria_filter df criteria indices = Inl (UnsupportedOperator opr)))
   \<and> (map_of (columns df) c' = None \<longrightarrow>
        apply_criteria_filter df (cs1 @ (c', opr', t') # cs2) indices
          = apply_criteria_filter df (cs1 @ cs2) indices)
   \<and> (map_of (columns df) c'' = Some vals \<and> \<not> list_all (np_index (length vals)) indices \<longrightarrow>
        apply_criteria_filter df ((c'', opr'', t'') # cs) indices = Inl IndexError)"
proof (intro conjI impI)
  assume a: "table_ok df \<and> row_positions df indices"
  have "length (replicate (length indices) True) = length indices" by simp
  note char = criteria_loop_char [OF conjunct1 [OF a] conjunct2 [OF a] this, of criteria]
  show "case find (offending df) criteria of
            None \<Rightarrow> (\<exists>m. apply_criteria_filter df criteria indices = Inr m \<and> length m = length indices)
          | Some (c, opr, t) \<Rightarrow>
              \<not> supported_operator opr \<and>
              apply_criteria_filter df criteria indices = Inl (UnsupportedOperator opr)"
  proof (cases "find (offending df) criteria")
    case None
    with char show ?thesis by (auto simp: apply_criteria_filter_def)
  next
    case (Some crit)
    then have "offending df crit" by (auto simp: find_Some_iff)
    moreover from Some have "criteria \<noteq> []" by auto
    ultimately show ?thesis using char Some
      by (auto simp: apply_criteria_filter_def offending_def split: prod.splits)
  qed
next
  assume "map_of (columns df) c' = None"
  then show "apply_criteria_filter df (cs1 @ (c', opr', t') # cs2) indices
              = apply_criteria_filter df (cs1 @ cs2) indices"
    by (auto simp: apply_criteria_filter_def criteria_loop_append split: sum.splits)
next
  assume "map_of (columns df) c'' = Some vals \<and> \<not> list_all (np_index (length vals)) indices"
  then show "apply_criteria_filter df ((c'', opr'', t'') # cs) indices = Inl IndexError"
    by (simp add: out_of_range_index_raises)
qed

theorem unsupported_operator_raises_witness:
  "table_ok \<lparr>nrows = 2, columns = [(''titer'', [1, 5])]\<rparr>
   \<and> row_positions \<lparr>nrows = 2, columns = [(''titer'', [1, 5])]\<rparr> [0, 1]
   \<and> apply_criteria_filter \<lparr>nrows = 2, columns = [(''titer'', [1, 5])]\<rparr>
         [(''absent'', ''!='', 0), (''titer'', ''>='', 1), (''titer'', ''<>'', 2)] [0, 1]
       = Inl (UnsupportedOperator ''<>'')
   \<and> map_of (columns \<lparr>nrows = 2, columns = [(''titer'', [1, 5])]\<rparr>) ''absent'' = None
   \<and> apply_criteria_filter \<lparr>nrows = 2, columns = [(''titer'', [1, 5])]\<rparr>
         [(''absent'', ''!='', 0), (''titer'', ''>='', 2)] [0, 1]
       = apply_criteria_filter \<lparr>nrows = 2, columns = [(''titer'', [1, 5])]\<rparr>
         [(''titer'', ''>='', 2)] [0, 1]
   \<and> map_of (columns \<lparr>nrows = 2, columns = [(''titer'', [1, 5])]\<rparr>) ''titer'' = Some [1, 5]
   \<and> \<not> list_all (np_index (length [1 :: real, 5])) [0, - 3]
   \<and> apply_criteria_filter \<lparr>nrows = 2, columns = [(''titer'', [1, 5])]\<rparr>
         [(''titer'', ''>='', 2)] [0, - 3] = Inl IndexError"
proof -
  let ?df = "\<lparr>nrows = 2, columns = [(''titer'', [1, 5])]\<rparr>"
  have t: "table_ok ?df"
    by (simp add: table_ok_def)
  have p: "row_positions ?df [0, 1]"
    by (simp add: row_positions_def np_index_def)
  have a: "map_of (columns ?df) ''absent'' = None" by simp
  have c: "map_of (columns ?df) ''titer'' = Some [1, 5]" by simp
  have i: "\<not> list_all (np_index (length [1 :: real, 5])) [0, - 3]" by (simp add: np_index_def)
  note u = unsupported_operator_raises [of ?df "[0, 1]"
        "[(''absent'', ''!='', 0), (''titer'', ''>='', 1), (''titer'', ''<>'', 2)]"
        "''absent''" "[]" "''!=''" 0 "[(''titer'', ''>='', 2)]"]
  have r1: "apply_criteria_filter ?df
         [(''absent'', ''!='', 0), (''titer'', ''>='', 1), (''titer'', ''<>'', 2)] [0, 1]
       = Inl (UnsupportedOperator ''<>'')"
    using u t p by (simp add: offending_def supported_operator_def)
  have r2: "apply_criteria_filter ?df [(''absent'', ''!='', 0), (''titer'', ''>='', 2)] [0, 1]
       = apply_criteria_filter ?df [(''titer'', ''>='', 2)] [0, 1]"
    using u a by simp
  have r3: "apply_criteria_filter ?df [(''titer'', ''>='', 2)] [0, - 3] = Inl IndexError"
    using unsupported_operator_raises [of ?df "[0, - 3]" "[]" "''absent''" "[]" "''!=''" 0 "[]"
        "''titer''" "[1, 5]" "''>=''" 2 "[]"] c i
    by simp
  show ?thesis by (intro conjI) (fact t p r1 a r2 c i r3)+
qed

text \<open>
  Claim C8, as stated, fails for an index sequence that leaves the table: line 40 reads
  the column at the indices before the operator is looked at, so the index 2 on a table of
  two rows raises IndexError, not the unsupported-operator error, though the operator
  \<^verbatim>\<open><>\<close> of the only criterion is not supported.
\<close>

theorem index_error_first_counterexample:
  "apply_criteria_filter \<lparr>nrows = 2, columns = [(''titer'', [1, 5])]\<rparr>
       [(''titer'', ''<>'', 2)] [2] = Inl IndexError
   \<and> \<not> supported_operator ''<>''
   \<and> map_of (columns \<lparr>nrows = 2, columns = [(''titer'', [1, 5])]\<rparr>) ''titer'' = Some [1, 5]
   \<and> \<not> row_positions \<lparr>nrows = 2, columns = [(''titer'', [1, 5])]\<rparr> [2]
   \<and> apply_criteria_filter \<lparr>nrows = 2, columns = [(''titer'', [1, 5])]\<rparr>
       [(''titer'', ''<>'', 2)] [1] = Inl (UnsupportedOperator ''<>'')"
  by (simp add: apply_criteria_filter_def np_take_def np_index_def np_pos_def
      supported_operator_def row_positions_def)

section \<open>The workflow simulator: validation\<close>

lemma fit_not_config: "fit_lognormal L d = Inl e \<Longrightarrow> \<not> is_configuration_error e"
  by (auto simp: fit_lognormal_def Let_def split: if_splits option.splits)

lemma percentile_not_config: "np_percentile a q = Inl e \<Longrightarrow> \<not> is_configuration_error e"
  by (auto simp: np_percentile_def Let_def split: if_splits)

lemma simulate_checked:
  assumes "real_data \<noteq> []" and "k1 \<le> int (length real_data)" and "k2 \<le> k1"
    and "ws = 3 \<longrightarrow> k3 \<le> k2"
    and "simulate_workflow L real_data df x k1 k2 k3 rho n meth cs ac ws r = Inl e"
  shows "\<not> is_configuration_error e"
  using assms fit_not_config [of L real_data] percentile_not_config [of real_data "100 - x"]
    truediv_not_config [of _ n e]
  by (auto simp: simulate_workflow_def split: if_splits sum.splits prod.splits)

text \<open>
  Claim C4. \<open>simulate_workflow\<close> raises one of its four configuration errors exactly when
  the data are empty, \<open>step1_keep\<close> exceeds the number of data points, \<open>step2_keep\<close>
  exceeds \<open>step1_keep\<close>, or the workflow has 3 steps and \<open>step3_keep\<close> exceeds
  \<open>step2_keep\<close>. So \<open>step1_keep\<close> equal to the number of data points passes the check and
  one more raises; \<open>step2_keep > step1_keep\<close> raises whatever \<open>workflow_steps\<close> is; and
  the check of \<open>step3_keep\<close> is made only for 3 steps. The error is returned without a
  generator state: no trial has run.
\<close>

theorem validation_fails_fast:
  "((\<exists>e. simulate_workflow L real_data df x k1 k2 k3 rho n meth cs ac ws r = Inl e
         \<and> is_configuration_error e)
      \<longleftrightarrow> (real_data = [] \<or> k1 > int (length real_data) \<or> k2 > k1 \<or> (ws = 3 \<and> k3 > k2)))
   \<and> (real_data \<noteq> [] \<longrightarrow>
        simulate_workflow L real_data df x (int (length real_data) + 1) k2 k3 rho n meth cs ac ws r
          = Inl (Step1Exceeds (int (length real_data) + 1) (length real_data)))
   \<and> (real_data \<noteq> [] \<and> k1 \<le> int (length real_data) \<and> k2 > k1 \<longrightarrow>
        simulate_workflow L real_data df x k1 k2 k3 rho n meth cs ac ws r
          = Inl (Step2Exceeds k2 k1))
   \<and> (ws \<noteq> 3 \<longrightarrow>
        simulate_workflow L real_data df x k1 k2 k3 rho n meth cs ac ws r
          \<noteq> Inl (Step3Exceeds k3 k2))"
proof -
  have "\<not> is_configuration_error e"
    if "simulate_workflow L real_data df x k1 k2 k3 rho n meth cs ac ws r = Inl e"
      and "\<not> (real_data = [] \<or> k1 > int (length real_data) \<or> k2 > k1 \<or> (ws = 3 \<and> k3 > k2))"
    for e
    using that simulate_checked [of real_data k1 k2 ws k3 L df x rho n meth cs ac r e] by auto
  moreover have "\<exists>e. simulate_workflow L real_data df x k1 k2 k3 rho n meth cs ac ws r = Inl e
         \<and> is_configuration_error e"
    if "real_data = [] \<or> k1 > int (length real_data) \<or> k2 > k1 \<or> (ws = 3 \<and> k3 > k2)"
    using that by (auto simp: simulate_workflow_def)
  moreover have "simulate_workflow L real_data df x k1 k2 k3 rho n meth cs ac ws r
          \<noteq> Inl (Step3Exceeds k3 k2)" if "ws \<noteq> 3"
    using that simulate_checked [of real_data k1 k2 ws k3 L df x rho n meth cs ac r "Step3Exceeds k3 k2"]
    by (auto simp: simulate_workflow_def split: if_splits)
  ultimately show ?thesis
    by (auto simp: simulate_workflow_def)
qed

theorem validation_fails_fast_witness:
  "simulate_workflow counting_sampler [1, 2, 3] \<lparr>nrows = 3, columns = []\<rparr> 2 4 1 1 (1 / 2) 10
      ''kde'' [] False 2 0 = Inl (Step1Exceeds 4 3)
   \<and> simulate_workflow counting_sampler [1, 2, 3] \<lparr>nrows = 3, columns = []\<rparr> 2 2 3 1 (1 / 2) 10
      ''kde'' [] False 2 0 = Inl (Step2Exceeds 3 2)
   \<and> simulate_workflow counting_sampler [1, 2, 3] \<lparr>nrows = 3, columns = []\<rparr> 2 3 2 5 (1 / 2) 10
      ''kde'' [] False 2 0 \<noteq> Inl (Step3Exceeds 5 2)"
  using validation_fails_fast [of counting_sampler "[1, 2, 3]" "\<lparr>nrows = 3, columns = []\<rparr>"
      2 3 1 1 "1 / 2" 10 "''kde''" "[]" False 2 0]
    validation_fails_fast [of counting_sampler "[1, 2, 3]" "\<lparr>nrows = 3, columns = []\<rparr>"
      2 2 3 1 "1 / 2" 10 "''kde''" "[]" False 2 0]
    validation_fails_fast [of counting_sampler "[1, 2, 3]" "\<lparr>nrows = 3, columns = []\<rparr>"
      2 3 2 5 "1 / 2" 10 "''kde''" "[]" False 2 0]
  by simp


section \<open>Sample generation\<close>

lemma draws_length: "draws d n r = (xs, r') \<Longrightarrow> length xs = n"
  by (induction n arbitrary: r xs r') (auto split: prod.splits)

lemma kde_resample_length:
  "kde_resample L data sz r = (Inr xs, r') \<Longrightarrow> length xs = nat sz \<and> 0 \<le> sz \<and> kde_valid L data"
  by (auto simp: kde_resample_def split: if_splits prod.splits dest: draws_length)




text \<open>
  Claim C3, as amended. For the method \<open>kde\<close>, \<open>generate_samples\<close> first drops the values
  of \<open>data\<close> that are not positive, as it does for \<open>lognormal\<close>; it raises when none is
  left, and otherwise resamples from the kernel density estimate built on the positive
  values only. A result has as many points as were asked for.
\<close>

theorem kde_filters_non_positive:
  "generate_samples L data sz ''kde'' fm r =
     (if filter (\<lambda>x. 0 < x) data = [] then (Inl NoValidDataPoints, r)
      else kde_resample L (filter (\<lambda>x. 0 < x) data) sz r)
   \<and> (generate_samples L data sz ''kde'' fm r = (Inr xs, r') \<longrightarrow>
        length xs = nat sz \<and> kde_valid L (filter (\<lambda>x. 0 < x) data))"
proof -
  have eq: "generate_samples L data sz ''kde'' fm r =
     (if filter (\<lambda>x. 0 < x) data = [] then (Inl NoValidDataPoints, r)
      else kde_resample L (filter (\<lambda>x. 0 < x) data) sz r)"
    by (simp add: generate_samples_def Let_def)
  moreover have "length xs = nat sz \<and> kde_valid L (filter (\<lambda>x. 0 < x) data)"
    if "generate_samples L data sz ''kde'' fm r = (Inr xs, r')"
    using that kde_resample_length [of L "filter (\<lambda>x. 0 < x) data" sz r xs r']
    unfolding eq by (auto split: if_splits)
  ultimately show ?thesis by blast
qed

theorem kde_filters_non_positive_witness:
  "generate_samples counting_sampler [- 1, 2, 0, 3] 2 ''kde'' None 0 = (Inr [1, 2], 2)
   \<and> generate_samples counting_sampler [- 1, 2, 0, 3] 2 ''kde'' None 0
       = kde_resample counting_sampler [2, 3] 2 0
   \<and> length [1 :: real, 2] = nat 2"
  using kde_filters_non_positive [of counting_sampler "[- 1, 2, 0, 3]" 2 None 0 "[1, 2]" 2]
  by (simp add: kde_resample_def counting_sampler_def eval_nat_numeral)


text \<open>
  Claim C3, as stated, fails: on the data \<open>[-1, -2]\<close> an estimate built directly from the
  data yields three points, and \<open>generate_samples\<close> raises instead.
\<close>

theorem kde_unfiltered_counterexample:
  "generate_samples counting_sampler [- 1, - 2] 3 ''kde'' None 0 = (Inl NoValidDataPoints, 0)
   \<and> kde_resample counting_sampler [- 1, - 2] 3 0 = (Inr [1, 2, 3], 3)"
  by (simp add: generate_samples_def kde_resample_def counting_sampler_def eval_nat_numeral)


section \<open>Ranking, slicing and mixing\<close>

lemma length_argsort: "length (argsort xs) = length xs"
  by (simp add: argsort_def)









lemma length_py_last:
  "length (py_last k a) = (if 0 < k then min (nat k) (length a) else length a - nat (- k))"
  by (auto simp: py_last_def)


lemma np_take_nat:
  "np_take a (map int idx) = Inr ys \<longleftrightarrow> (list_all (\<lambda>i. i < length a) idx \<and> ys = map ((!) a) idx)"
proof -
  have "list_all (np_index (length a)) (map int idx) = list_all (\<lambda>i. i < length a) idx"
    by (simp add: list_all_iff np_index_def)
  moreover have "map (\<lambda>i. a ! np_pos (length a) i) (map int idx) = map ((!) a) idx"
    by (simp add: np_pos_def o_def)
  ultimately show ?thesis by (auto simp: np_take_def)
qed




lemma correlate_empty_noise:
  "correlate rho base [] = Inr g \<Longrightarrow> g = []"
  by (auto simp: correlate_def np_add_def split: if_splits)

lemma count_success_le: "count_success cutoff xs \<le> length xs"
  by (simp add: count_success_def)


section \<open>One trial\<close>




lemma final_selection_Inr:
  assumes "final_selection L real_data k2 k3 rho meth fm ws
             (top1_idx, top1_f, assay_g, top2_idx, top2_f) r2 = (Inr (final_idx, final_scores), r3)"
  shows "ws = 3 \<Longrightarrow> \<exists>noise2 assay_h. generate_samples L real_data k2 meth fm r2 = (Inr noise2, r3)
            \<and> correlate rho top2_f noise2 = Inr assay_h \<and> k3 \<le> int (length assay_h)
            \<and> final_idx = py_last k3 (argsort assay_h) \<and> final_scores = map ((!) top2_f) final_idx"
    and "ws \<noteq> 3 \<Longrightarrow> r3 = r2 \<and> final_idx = py_last k3 (argsort assay_g)
            \<and> final_scores = map ((!) top1_f) final_idx"
  using assms
  by (auto simp: final_selection_def Let_def np_take_nat split: prod.splits sum.splits if_splits)


lemma trial_body_Inr:
  assumes "trial_body L real_data df k1 k2 k3 rho meth fm cs ac ws cutoff r = (Inr c, r')"
  shows "\<exists>assay_f r1 s r2 final_idx final_scores.
           stage1 L real_data df k1 meth fm cs ac r = (Inr assay_f, r1)
         \<and> stage2 L real_data k1 k2 rho meth fm assay_f r1 = (Inr s, r2)
         \<and> final_selection L real_data k2 k3 rho meth fm ws s r2 = (Inr (final_idx, final_scores), r')
         \<and> final_gate df cs ac ws s final_idx = Inr ()
         \<and> c = count_success cutoff final_scores"
  using assms
  by (auto simp: trial_body_def split: prod.splits sum.splits)


text \<open>The definitions that a run on concrete data unfolds.\<close>

lemmas run_defs = simulate_workflow_def trial_body_def stage1_def stage2_def final_selection_def
  final_gate_def original_indices_def initial_filter_def generate_samples_def fit_lognormal_def
  lognorm_rvs_def kde_resample_def counting_sampler_def np_percentile_def argsort_def py_last_def
  np_take_def np_index_def np_pos_def np_mask_def np_add_def correlate_def count_success_def tally_def
  apply_criteria_filter_def sort_key_def Let_def







text \<open>
  Claim C9, as amended. For a completed trial with \<open>step3_keep \<ge> 1\<close>, for 3 steps and for
  any other \<open>workflow_steps\<close>: the final positions are the last \<open>step3_keep\<close> positions of the
  ascending ranking of the stage-3 measurements (3 steps) or of the stage-2 measurements
  (otherwise), all of them when fewer were ranked, which only the second case allows; the
  recorded count is at most \<open>step3_keep\<close>; and the trial adds to \<open>success_count\<close> exactly
  when the count equals \<open>step3_keep\<close>. Outside the 3-step workflow \<open>step3_keep\<close> is never
  checked against \<open>step2_keep\<close>.
\<close>

theorem final_keep_count:
  assumes "trial_body L real_data df k1 k2 k3 rho meth fm cs ac ws cutoff r = (Inr c, r')"
    and "0 < k3"
  shows "\<exists>assay_f r1 top1_idx top1_f assay_g top2_idx top2_f r2 final_idx final_scores ranked.
           stage1 L real_data df k1 meth fm cs ac r = (Inr assay_f, r1)
         \<and> stage2 L real_data k1 k2 rho meth fm assay_f r1
               = (Inr (top1_idx, top1_f, assay_g, top2_idx, top2_f), r2)
         \<and> final_selection L real_data k2 k3 rho meth fm ws
               (top1_idx, top1_f, assay_g, top2_idx, top2_f) r2 = (Inr (final_idx, final_scores), r')
         \<and> (if ws = 3 then \<exists>noise2. correlate rho top2_f noise2 = Inr ranked
                              \<and> k3 \<le> int (length ranked)
             else ranked = assay_g)
         \<and> final_idx = py_last k3 (argsort ranked)
         \<and> length final_idx = min (nat k3) (length ranked)
         \<and> length final_scores = length final_idx
         \<and> c = count_success cutoff final_scores
         \<and> c \<le> nat k3
         \<and> tally k3 (sc, scs) c = (if int c = k3 then sc + 1 else sc, scs @ [c])
         \<and> (ws \<noteq> 3 \<longrightarrow>
               simulate_workflow L real_data df x k1 k2 k3 rho n meth cs ac ws r0
                 \<noteq> Inl (Step3Exceeds k3 k2))"
proof -
  from trial_body_Inr [OF assms(1)]
  obtain assay_f r1 s r2 final_idx final_scores where
    s1: "stage1 L real_data df k1 meth fm cs ac r = (Inr assay_f, r1)"
    and s2: "stage2 L real_data k1 k2 rho meth fm assay_f r1 = (Inr s, r2)"
    and f: "final_selection L real_data k2 k3 rho meth fm ws s r2 = (Inr (final_idx, final_scores), r')"
    and c: "c = count_success cutoff final_scores"
    by blast
  obtain top1_idx top1_f assay_g top2_idx top2_f where
    s: "s = (top1_idx, top1_f, assay_g, top2_idx, top2_f)" by (cases s)
  note fs = final_selection_Inr [OF f [unfolded s]]
  have "\<exists>ranked.
      (if ws = 3 then \<exists>noise2. correlate rho top2_f noise2 = Inr ranked \<and> k3 \<le> int (length ranked)
       else ranked = assay_g)
      \<and> final_idx = py_last k3 (argsort ranked)
      \<and> length final_scores = length final_idx"
  proof (cases "ws = 3")
    case True
    from fs(1) [OF True] obtain noise2 assay_h where
      "correlate rho top2_f noise2 = Inr assay_h" "k3 \<le> int (length assay_h)"
      "final_idx = py_last k3 (argsort assay_h)" "final_scores = map ((!) top2_f) final_idx"
      by blast
    with True show ?thesis by (intro exI [of _ assay_h]) auto
  next
    case False
    from fs(2) [OF False] show ?thesis using False by (intro exI [of _ assay_g]) auto
  qed
  then obtain ranked where
    r: "if ws = 3 then \<exists>noise2. correlate rho top2_f noise2 = Inr ranked \<and> k3 \<le> int (length ranked)
        else ranked = assay_g"
    and idx: "final_idx = py_last k3 (argsort ranked)"
    and sc: "length final_scores = length final_idx"
    by blast
  have len: "length final_idx = min (nat k3) (length ranked)"
    using assms(2) by (simp add: idx length_py_last length_argsort)
  have cle: "c \<le> nat k3"
    using count_success_le [of cutoff final_scores] len sc c by simp
  have t: "tally k3 (sc, scs) c = (if int c = k3 then sc + 1 else sc, scs @ [c])"
    by (simp add: tally_def)
  have v: "ws \<noteq> 3 \<longrightarrow>
             simulate_workflow L real_data df x k1 k2 k3 rho n meth cs ac ws r0
               \<noteq> Inl (Step3Exceeds k3 k2)"
    using simulate_checked [of real_data k1 k2 ws k3 L df x rho n meth cs ac r0 "Step3Exceeds k3 k2"]
    by (auto simp: simulate_workflow_def split: if_splits)
  show ?thesis
    using s1 s2 [unfolded s] f [unfolded s] r idx len sc c cle t v by blast
qed

theorem final_keep_count_witness:
  "trial_body counting_sampler [1, 2, 3] \<lparr>nrows = 3, columns = []\<rparr> 2 1 2 1 ''kde'' None [] False 2
      2 0 = (Inr 2, 5)
   \<and> (0 :: int) < 2 \<and> (2 :: nat) \<le> nat 2
   \<and> tally 2 (0, []) 2 = (1, [2])
   \<and> simulate_workflow counting_sampler [1, 2, 3] \<lparr>nrows = 3, columns = []\<rparr> 50 2 1 2 1 1
        ''kde'' [] False 2 0 \<noteq> Inl (Step3Exceeds 2 1)"
proof -
  have h: "trial_body counting_sampler [1, 2, 3] \<lparr>nrows = 3, columns = []\<rparr> 2 1 2 1 ''kde'' None
      [] False 2 2 0 = (Inr 2, 5)"
    by (simp add: run_defs eval_nat_numeral)
  have p: "(0 :: int) < 2" by simp
  from final_keep_count [OF h p, of 0 "[]" 50 1 0]
  have "(2 :: nat) \<le> nat 2" and "tally 2 (0, []) 2 = (1, [2])"
    and "simulate_workflow counting_sampler [1, 2, 3] \<lparr>nrows = 3, columns = []\<rparr> 50 2 1 2 1 1
        ''kde'' [] False 2 0 \<noteq> Inl (Step3Exceeds 2 1)"
    by auto
  with h show ?thesis by simp
qed


text \<open>
  Claim C9, as stated, fails for \<open>step3_keep = 0\<close>, which the sensitivity driver passes when it
  halves a baseline \<open>step2_keep\<close> of 1: the slice \<^verbatim>\<open>[-0:]\<close> is the whole array, so the final
  selection takes both ranked positions and the recorded count is 2. (With a positive
  \<open>step3_keep\<close> above \<open>step1_keep\<close>, here 5 against 2, a 2-step trial selects the 2
  positions there are.)
\<close>

theorem zero_keep_counterexample:
  "simulate_workflow counting_sampler [1, 2] \<lparr>nrows = 2, columns = []\<rparr> 100 2 0 0 1 1
      ''lognormal'' [] False 2 0 = Inr ((0, Some (1, 0, 1), [2]), 4)
   \<and> final_selection counting_sampler [1, 2] 0 0 1 ''lognormal'' (Some (1, 0, 1)) 2
        ([0, 1], [1, 2], [1, 2], [0, 1], [1, 2]) 4 = (Inr ([0, 1], [1, 2]), 4)
   \<and> trial_body counting_sampler [1, 2] \<lparr>nrows = 2, columns = []\<rparr> 2 0 0 1 ''lognormal''
        (Some (1, 0, 1)) [] False 2 1 0 = (Inr 2, 4)
   \<and> \<not> (2 :: nat) \<le> nat 0
   \<and> param_ranges \<lparr>top_x_percent = 100, step1_keep = 2, step2_keep = 1,
          step3_keep = 1, dist_method = ''lognormal'', criteria_settings = [],
          apply_criteria_at_step2 = False, workflow_steps = 2\<rparr>
       = Inr [(''step1_keep'', [1, 1, 2, 2, 3]), (''step2_keep'', [0, 0, 1, 1, 1]),
              (''top_x_percent'', [1, 2, 5, 10, 15])]
   \<and> test_settings \<lparr>top_x_percent = 100, step1_keep = 2, step2_keep = 1, step3_keep = 1,
          dist_method = ''lognormal'', criteria_settings = [], apply_criteria_at_step2 = False,
          workflow_steps = 2\<rparr> ''step2_keep''
        (hd (snd ([(''step1_keep'', [1, 1, 2, 2, 3]), (''step2_keep'', [0, 0, 1, 1, 1]),
              (''top_x_percent'', [1, 2, 5, 10, 15])] ! 1)))
       = \<lparr>top_x_percent = 100, step1_keep = 2, step2_keep = 0, step3_keep = 0,
          dist_method = ''lognormal'', criteria_settings = [], apply_criteria_at_step2 = False,
          workflow_steps = 2\<rparr>
   \<and> final_selection counting_sampler [1, 2] 1 5 1 ''lognormal'' (Some (1, 0, 1)) 2
        ([0, 1], [1, 2], [1, 2], [1], [2]) 4 = (Inr ([0, 1], [1, 2]), 4)"
proof -
  have p: "param_ranges \<lparr>top_x_percent = 100, step1_keep = 2, step2_keep = 1,
          step3_keep = 1, dist_method = ''lognormal'', criteria_settings = [],
          apply_criteria_at_step2 = False, workflow_steps = 2\<rparr>
       = Inr [(''step1_keep'', [1, 1, 2, 2, 3]), (''step2_keep'', [0, 0, 1, 1, 1]),
              (''top_x_percent'', [1, 2, 5, 10, 15])]"
    by (subst param_ranges_exact) simp_all
  show ?thesis
    unfolding p
    by (simp add: run_defs py_truediv_def binary64_def pow2_def test_settings_def
        eval_nat_numeral)
qed

section \<open>The loop over the trials\<close>

lemma run_trials_outcomes:
  "run_trials body k3 n ((sc, scs), r) = ((sc', scs'), r') \<Longrightarrow>
     sc' = sc + length (filter (fully_successful k3) (trial_outcomes body n r))
     \<and> scs' = scs @ recorded_counts (trial_outcomes body n r)"
proof (induction n arbitrary: sc scs r)
  case 0
  then show ?case by (simp add: recorded_counts_def)
next
  case (Suc n)
  obtain out r1 where b: "body r = (out, r1)" by (cases "body r")
  show ?case
  proof (cases out)
    case (Inl a)
    with Suc.prems b have "run_trials body k3 n ((sc, scs), r1) = ((sc', scs'), r')" by simp
    from Suc.IH [OF this] show ?thesis
      using b Inl by (simp add: fully_successful_def recorded_counts_def)
  next
    case (Inr c)
    with Suc.prems b have "run_trials body k3 n ((if int c = k3 then sc + 1 else sc, scs @ [c]), r1) = ((sc', scs'), r')"
      by (simp add: tally_def)
    from Suc.IH [OF this] show ?thesis
      using b Inr by (simp add: fully_successful_def recorded_counts_def)
  qed
qed

lemma length_trial_outcomes: "length (trial_outcomes body n r) = n"
  by (induction n arbitrary: r) (auto split: prod.splits)


lemma binary64_third:
  "binary64 (1 / 3) = 6004799503160661 / 2 ^ 54"
proof -
  have "binary64 (1 / 3) = real_of_int 6004799503160661 * pow2 (- 2 - 52)"
    by (rule binary64_eq) (simp_all add: pow2_def)
  then show ?thesis by (simp add: pow2_def)
qed

text \<open>
  Claim C2. For a valid configuration (data not empty, keep-counts in order, \<open>n_rep\<close>
  positive, \<open>top_x_percent\<close> between 0 and 100, and a lognormal fit that succeeds when the
  method is lognormal) \<open>simulate_workflow\<close> returns, and its probability is the number of
  fully successful trials among all \<open>n_rep\<close> trials divided by \<open>n_rep\<close> (Python's division:
  the quotient rounded to binary64), whatever the number of trials that were skipped; it
  lies between 0 and 1.
\<close>

theorem success_probability_is_fraction:
  assumes "real_data \<noteq> []" and "k1 \<le> int (length real_data)" and "k2 \<le> k1"
    and "ws = 3 \<longrightarrow> k3 \<le> k2"
    and "0 < n_rep" and "0 \<le> top_x" and "top_x \<le> 100"
    and "meth = ''lognormal'' \<longrightarrow> fit_lognormal L real_data = Inr params"
  shows "\<exists>cutoff fitted outs p r'.
           np_percentile real_data (100 - top_x) = Inr cutoff
         \<and> fitted = (if meth = ''lognormal'' then Some params else None)
         \<and> outs = trial_outcomes
                    (trial_body L real_data df k1 k2 k3 rho meth fitted cs ac ws cutoff)
                    (nat n_rep) r
         \<and> length outs = nat n_rep
         \<and> simulate_workflow L real_data df top_x k1 k2 k3 rho n_rep meth cs ac ws r
             = Inr ((p, fitted, recorded_counts outs), r')
         \<and> py_truediv (int (length (filter (fully_successful k3) outs))) n_rep = Inr p
         \<and> p = binary64 (real (length (filter (fully_successful k3) outs)) / real_of_int n_rep)
         \<and> 0 \<le> p \<and> p \<le> 1"
proof -
  obtain cutoff where cut: "np_percentile real_data (100 - top_x) = Inr cutoff"
    using assms(1,6,7) by (auto simp: np_percentile_def Let_def)
  define fitted where "fitted = (if meth = ''lognormal'' then Some params else None)"
  define body where "body = trial_body L real_data df k1 k2 k3 rho meth fitted cs ac ws cutoff"
  define outs where "outs = trial_outcomes body (nat n_rep) r"
  obtain sc scs r' where run: "run_trials body k3 (nat n_rep) ((0, []), r) = ((sc, scs), r')"
    by (cases "run_trials body k3 (nat n_rep) ((0, []), r)") auto
  from run_trials_outcomes [OF run]
  have sc: "sc = length (filter (fully_successful k3) outs)" and scs: "scs = recorded_counts outs"
    by (simp_all add: outs_def)
  have len: "length outs = nat n_rep" by (simp add: outs_def length_trial_outcomes)
  have "length (filter (fully_successful k3) outs) \<le> nat n_rep"
    using length_filter_le [of "fully_successful k3" outs] len by simp
  then have "int sc \<le> n_rep" using assms(5) by (simp add: sc)
  from py_truediv_fraction [OF _ this assms(5)]
  obtain p where p: "py_truediv (int sc) n_rep = Inr p"
    and pv: "p = binary64 (real_of_int (int sc) / real_of_int n_rep)"
    and p0: "0 \<le> p" and p1: "p \<le> 1"
    by auto
  have fit: "(if meth = ''lognormal''
               then (case fit_lognormal L real_data of Inl e \<Rightarrow> Inl e | Inr m \<Rightarrow> Inr (Some m))
               else Inr None) = Inr fitted"
    using assms(8) by (simp add: fitted_def)
  have nv: "\<not> (ws = 3 \<and> k2 < k3)" using assms(4) by auto
  have sim: "simulate_workflow L real_data df top_x k1 k2 k3 rho n_rep meth cs ac ws r
               = Inr ((p, fitted, scs), r')"
    using assms(1-3,5) run nv p
    by (simp add: simulate_workflow_def fit cut body_def [symmetric])
  show ?thesis
    using cut len sim [unfolded scs] p [unfolded sc] pv [unfolded sc] p0 p1
      outs_def [unfolded body_def] fitted_def
    by (intro exI [of _ cutoff] exI [of _ fitted] exI [of _ outs] exI [of _ p] exI [of _ r']) simp
qed

theorem success_probability_is_fraction_witness:
  "simulate_workflow counting_sampler [4, 8] \<lparr>nrows = 2, columns = []\<rparr> 50 1 1 1 1 3
      ''lognormal'' [] False 2 0
     = Inr ((6004799503160661 / 2 ^ 54, Some (1, 0, 1), [0, 0, 1]), 9)
   \<and> fit_lognormal counting_sampler [4, 8] = Inr (1, 0, 1)
   \<and> py_truediv 1 3 = Inr (6004799503160661 / 2 ^ 54)"
proof -
  have fit: "''lognormal'' = ''lognormal'' \<longrightarrow> fit_lognormal counting_sampler [4, 8] = Inr (1, 0, 1)"
    by (simp add: fit_lognormal_def counting_sampler_def)
  have d: "py_truediv 1 3 = Inr (6004799503160661 / 2 ^ 54)"
    using binary64_third by (simp add: py_truediv_def pow2_def)
  have sim: "simulate_workflow counting_sampler [4, 8] \<lparr>nrows = 2, columns = []\<rparr> 50 1 1 1 1 3
      ''lognormal'' [] False 2 0
     = Inr ((6004799503160661 / 2 ^ 54, Some (1, 0, 1), [0, 0, 1]), 9)"
    by (simp add: run_defs d eval_nat_numeral)
  from success_probability_is_fraction [of "[4, 8]" 1 1 2 1 3 50 "''lognormal''" counting_sampler
      "(1, 0, 1)" "\<lparr>nrows = 2, columns = []\<rparr>" 1 "[]" False 0, OF _ _ _ _ _ _ _ fit]
  obtain p :: real where "0 \<le> p" "p \<le> 1"
    by auto
  with sim fit d show ?thesis by simp
qed

section \<open>The sensitivity driver\<close>

lemma truediv_count:
  assumes "run_trials body k3 n ((0, []), r) = ((sc, scs), r')" and "0 < n_rep" and "n = nat n_rep"
  shows "\<exists>p. py_truediv (int sc) n_rep = Inr p"
proof -
  have "sc = length (filter (fully_successful k3) (trial_outcomes body n r))"
    using run_trials_outcomes [OF assms(1)] by simp
  then have "sc \<le> n"
    using length_filter_le [of "fully_successful k3" "trial_outcomes body n r"]
    by (simp add: length_trial_outcomes)
  then have "int sc \<le> n_rep" using assms(2,3) by simp
  from py_truediv_fraction [OF _ this assms(2)] show ?thesis by auto
qed

lemma simulate_raises_before_loop:
  assumes "simulate_workflow L real_data df x k1 k2 k3 rho n meth cs ac ws r = Inl e"
  shows "is_configuration_error e
       \<or> (meth = ''lognormal'' \<and> fit_lognormal L real_data = Inl e)
       \<or> np_percentile real_data (100 - x) = Inl e"
proof -
  have no: "py_truediv (int sc) n \<noteq> Inl e'"
    if "run_trials body k3 (nat n) ((0, []), r) = ((sc, scs), r')" and "0 < n"
    for body sc scs r' e'
    using truediv_count [OF that(1) that(2) refl] by auto
  show ?thesis
    using assms no
    by (auto simp: simulate_workflow_def split: if_splits sum.splits prod.splits)
qed

lemma sweep_values_length:
  "sweep_values L results df base correlation name vs r = (ps, r') \<Longrightarrow> length ps = length vs"
  by (induction vs arbitrary: r ps r') (auto split: prod.splits)

lemma sweep_params_shape:
  "sweep_params L results df base correlation ranges r = (entries, r') \<Longrightarrow>
     map (\<lambda>e. (fst e, fst (snd e))) entries = ranges
     \<and> list_all (\<lambda>e. length (snd (snd e)) = length (fst (snd e))) entries"
proof (induction ranges arbitrary: r entries r')
  case Nil
  then show ?case by simp
next
  case (Cons range ranges)
  obtain name vs where range: "range = (name, vs)" by (cases range)
  obtain ps r1 where vals: "sweep_values L results df base correlation name vs r = (ps, r1)"
    by (cases "sweep_values L results df base correlation name vs r")
  obtain es r2 where rest: "sweep_params L results df base correlation ranges r1 = (es, r2)"
    by (cases "sweep_params L results df base correlation ranges r1")
  from Cons.prems have "entries = (name, vs, ps) # es"
    by (simp add: range vals rest)
  moreover have "length ps = length vs" using vals by (rule sweep_values_length)
  ultimately show ?case using Cons.IH [OF rest] by (simp add: range)
qed


text \<open>
  Claim C6, as amended. For a baseline whose \<open>step1_keep\<close> and \<open>step2_keep\<close> are at most
  1801439850948198 in absolute value (five times the value is within \<open>2 ^ 53\<close>), the
  candidate lists are computed, and the driver sweeps \<open>step1_keep\<close> and \<open>step2_keep\<close> over
  the five candidates 0.5, 0.75, 1, 1.25 and 1.5 times the baseline, each truncated toward
  zero (not rounded), and \<open>top_x_percent\<close> over exactly 1, 2, 5, 10 and 15. Beyond the
  bound a product is rounded to binary64 before it is truncated (lemma
  \<open>product_rounded_first\<close>), and from \<open>2 ^ 1024\<close> on the driver raises (lemma
  \<open>keep_candidates_overflow\<close>).
\<close>

theorem param_ranges_truncated:
  assumes "5 * \<bar>step1_keep b\<bar> \<le> 2 ^ 53" and "5 * \<bar>step2_keep b\<bar> \<le> 2 ^ 53"
  shows "\<exists>entries r'.
     param_ranges b =
       Inr [(''step1_keep'',
              [sgn (step1_keep b) * (\<bar>step1_keep b\<bar> div 2),
               sgn (step1_keep b) * (3 * \<bar>step1_keep b\<bar> div 4),
               step1_keep b,
               sgn (step1_keep b) * (5 * \<bar>step1_keep b\<bar> div 4),
               sgn (step1_keep b) * (3 * \<bar>step1_keep b\<bar> div 2)]),
            (''step2_keep'',
              [sgn (step2_keep b) * (\<bar>step2_keep b\<bar> div 2),
               sgn (step2_keep b) * (3 * \<bar>step2_keep b\<bar> div 4),
               step2_keep b,
               sgn (step2_keep b) * (5 * \<bar>step2_keep b\<bar> div 4),
               sgn (step2_keep b) * (3 * \<bar>step2_keep b\<bar> div 2)]),
            (''top_x_percent'', [1, 2, 5, 10, 15])]
   \<and> run_sensitivity_analysis L results df b correlations r = Inr (entries, r')
   \<and> map (\<lambda>e. (fst e, fst (snd e))) entries =
         [(''step1_keep'',
              [sgn (step1_keep b) * (\<bar>step1_keep b\<bar> div 2),
               sgn (step1_keep b) * (3 * \<bar>step1_keep b\<bar> div 4),
               step1_keep b,
               sgn (step1_keep b) * (5 * \<bar>step1_keep b\<bar> div 4),
               sgn (step1_keep b) * (3 * \<bar>step1_keep b\<bar> div 2)]),
          (''step2_keep'',
              [sgn (step2_keep b) * (\<bar>step2_keep b\<bar> div 2),
               sgn (step2_keep b) * (3 * \<bar>step2_keep b\<bar> div 4),
               step2_keep b,
               sgn (step2_keep b) * (5 * \<bar>step2_keep b\<bar> div 4),
               sgn (step2_keep b) * (3 * \<bar>step2_keep b\<bar> div 2)]),
          (''top_x_percent'', [1, 2, 5, 10, 15])]"
proof -
  note p = param_ranges_exact [OF assms]
  define correlation where
    "correlation = (if length correlations > 0 then correlations ! 0 else 0.5)"
  obtain entries r' where
    sw: "sweep_params L results df b correlation
           [(''step1_keep'',
              [sgn (step1_keep b) * (\<bar>step1_keep b\<bar> div 2),
               sgn (step1_keep b) * (3 * \<bar>step1_keep b\<bar> div 4),
               step1_keep b,
               sgn (step1_keep b) * (5 * \<bar>step1_keep b\<bar> div 4),
               sgn (step1_keep b) * (3 * \<bar>step1_keep b\<bar> div 2)]),
            (''step2_keep'',
              [sgn (step2_keep b) * (\<bar>step2_keep b\<bar> div 2),
               sgn (step2_keep b) * (3 * \<bar>step2_keep b\<bar> div 4),
               step2_keep b,
               sgn (step2_keep b) * (5 * \<bar>step2_keep b\<bar> div 4),
               sgn (step2_keep b) * (3 * \<bar>step2_keep b\<bar> div 2)]),
            (''top_x_percent'', [1, 2, 5, 10, 15])] r = (entries, r')"
    by (rule prod.exhaust)
  have run: "run_sensitivity_analysis L results df b correlations r = Inr (entries, r')"
    by (simp only: run_sensitivity_analysis_def p sum.case Let_def correlation_def [symmetric] sw)
  have shape: "map (\<lambda>e. (fst e, fst (snd e))) entries =
         [(''step1_keep'',
              [sgn (step1_keep b) * (\<bar>step1_keep b\<bar> div 2),
               sgn (step1_keep b) * (3 * \<bar>step1_keep b\<bar> div 4),
               step1_keep b,
               sgn (step1_keep b) * (5 * \<bar>step1_keep b\<bar> div 4),
               sgn (step1_keep b) * (3 * \<bar>step1_keep b\<bar> div 2)]),
          (''step2_keep'',
              [sgn (step2_keep b) * (\<bar>step2_keep b\<bar> div 2),
               sgn (step2_keep b) * (3 * \<bar>step2_keep b\<bar> div 4),
               step2_keep b,
               sgn (step2_keep b) * (5 * \<bar>step2_keep b\<bar> div 4),
               sgn (step2_keep b) * (3 * \<bar>step2_keep b\<bar> div 2)]),
          (''top_x_percent'', [1, 2, 5, 10, 15])]"
    using sweep_params_shape [OF sw] by (rule conjunct1)
  show ?thesis
    by (intro exI [of _ entries] exI [of _ r'] conjI) (fact p run shape)+
qed

theorem param_ranges_truncated_witness:
  "5 * \<bar>7 :: int\<bar> \<le> 2 ^ 53 \<and> 5 * \<bar>3 :: int\<bar> \<le> 2 ^ 53
   \<and> param_ranges \<lparr>top_x_percent = 2, step1_keep = 7, step2_keep = 3, step3_keep = 1,
        dist_method = ''lognormal'', criteria_settings = [], apply_criteria_at_step2 = False,
        workflow_steps = 3\<rparr>
     = Inr [(''step1_keep'', [3, 5, 7, 8, 10]), (''step2_keep'', [1, 2, 3, 3, 4]),
            (''top_x_percent'', [1, 2, 5, 10, 15])]"
  using param_ranges_truncated [of "\<lparr>top_x_percent = 2, step1_keep = 7, step2_keep = 3,
        step3_keep = 1, dist_method = ''lognormal'', criteria_settings = [],
        apply_criteria_at_step2 = False, workflow_steps = 3\<rparr>"
      counting_sampler "[]" "\<lparr>nrows = 0, columns = []\<rparr>" "[]" 0]
  by auto

text \<open>
  Claim C6, as stated, fails: for the baseline 3 the fourth candidate is 3, and 3.75
  rounded to an integer is 4.
\<close>

theorem param_ranges_not_rounded:
  "param_ranges \<lparr>top_x_percent = 2, step1_keep = 3, step2_keep = 2, step3_keep = 1,
        dist_method = ''lognormal'', criteria_settings = [], apply_criteria_at_step2 = False,
        workflow_steps = 3\<rparr>
     = Inr [(''step1_keep'', [1, 2, 3, 3, 4]), (''step2_keep'', [1, 1, 2, 2, 3]),
            (''top_x_percent'', [1, 2, 5, 10, 15])]
   \<and> rounded_candidates 3 ! 3 = 4"
proof -
  have "param_ranges \<lparr>top_x_percent = 2, step1_keep = 3, step2_keep = 2, step3_keep = 1,
        dist_method = ''lognormal'', criteria_settings = [], apply_criteria_at_step2 = False,
        workflow_steps = 3\<rparr>
     = Inr [(''step1_keep'', [1, 2, 3, 3, 4]), (''step2_keep'', [1, 1, 2, 2, 3]),
            (''top_x_percent'', [1, 2, 5, 10, 15])]"
    by (subst param_ranges_exact) simp_all
  moreover have "rounded_candidates 3 ! 3 = 4"
    by (simp add: rounded_candidates_def round_def)
  ultimately show ?thesis by simp
qed








section \<open>Workflow efficiency\<close>

lemma product_error:
  fixes a b A B u :: real
  assumes "0 < A" and "0 < B" and "\<bar>a - A\<bar> \<le> A * u" and "\<bar>b - B\<bar> \<le> B * u"
    and "0 \<le> u" and "u \<le> 1"
  shows "\<bar>a * b - A * B\<bar> \<le> 3 * u * (A * B)"
proof -
  have split: "a * b - A * B = (a - A) * b + A * (b - B)" by (simp add: algebra_simps)
  have "B * u \<le> B * 1" using assms(2,6) by (intro mult_left_mono) simp_all
  with assms(4) have b2: "\<bar>b\<bar> \<le> 2 * B" by simp
  have "\<bar>(a - A) * b\<bar> = \<bar>a - A\<bar> * \<bar>b\<bar>" by (simp add: abs_mult)
  also have "\<dots> \<le> (A * u) * (2 * B)"
    using assms(3) b2 by (intro mult_mono) (use assms in simp_all)
  finally have p1: "\<bar>(a - A) * b\<bar> \<le> 2 * u * (A * B)" by (simp add: mult_ac)
  have "\<bar>A * (b - B)\<bar> = A * \<bar>b - B\<bar>" using assms(1) by (simp add: abs_mult)
  also have "\<dots> \<le> A * (B * u)" using assms(1,4) by (intro mult_left_mono) simp_all
  finally have p2: "\<bar>A * (b - B)\<bar> \<le> u * (A * B)" by (simp add: mult_ac)
  have "\<bar>a * b - A * B\<bar> \<le> \<bar>(a - A) * b\<bar> + \<bar>A * (b - B)\<bar>"
    unfolding split by (rule abs_triangle_ineq)
  with p1 p2 show ?thesis by simp
qed

text \<open>
  Claim C10, as amended. For keep-counts from 1 to \<^verbatim>\<open>2**1000\<close> and \<open>workflow_steps\<close>
  2 or 3, \<open>calculate_workflow_efficiency\<close> returns, and each metric is its exact quotient
  rounded to binary64, within a relative error of \<^verbatim>\<open>2**-53\<close>. The exact quotients satisfy
  \<open>step1_efficiency * step2_efficiency = overall_efficiency\<close> and
  \<open>reduction_ratio * overall_efficiency = 1\<close>; the returned values satisfy them up to a
  relative error of \<^verbatim>\<open>2**-51\<close>. In the 2-step case the final count is \<open>step2_keep\<close>,
  \<open>step2_efficiency\<close> is 1 and the first identity holds exactly.
\<close>

theorem efficiency_identities_rounded:
  assumes "0 < s1" and "s1 \<le> 2 ^ 1000" and "0 < s2" and "s2 \<le> 2 ^ 1000"
    and "0 < s3" and "s3 \<le> 2 ^ 1000" and "ws = 2 \<or> ws = 3"
  shows "\<exists>m f E2.
           calculate_workflow_efficiency s1 s2 s3 ws = Inr m
         \<and> f = (if ws = 3 then s3 else s2)
         \<and> E2 = (if ws = 3 then real_of_int s3 / real_of_int s2 else 1)
         \<and> \<bar>reduction_ratio m - real_of_int s1 / real_of_int f\<bar>
               \<le> real_of_int s1 / real_of_int f / 2 ^ 53
         \<and> \<bar>step1_efficiency m - real_of_int s2 / real_of_int s1\<bar>
               \<le> real_of_int s2 / real_of_int s1 / 2 ^ 53
         \<and> \<bar>step2_efficiency m - E2\<bar> \<le> E2 / 2 ^ 53
         \<and> \<bar>overall_efficiency m - real_of_int f / real_of_int s1\<bar>
               \<le> real_of_int f / real_of_int s1 / 2 ^ 53
         \<and> real_of_int s2 / real_of_int s1 * E2 = real_of_int f / real_of_int s1
         \<and> real_of_int s1 / real_of_int f * (real_of_int f / real_of_int s1) = 1
         \<and> \<bar>step1_efficiency m * step2_efficiency m - overall_efficiency m\<bar>
               \<le> real_of_int f / real_of_int s1 / 2 ^ 51
         \<and> \<bar>reduction_ratio m * overall_efficiency m - 1\<bar> \<le> 1 / 2 ^ 51
         \<and> (ws = 2 \<longrightarrow>
               f = s2 \<and> step2_efficiency m = 1
             \<and> step1_efficiency m * step2_efficiency m = overall_efficiency m)"
proof -
  define f where "f = (if ws = 3 then s3 else s2)"
  define E2 where "E2 = (if ws = 3 then real_of_int s3 / real_of_int s2 else 1)"
  have fpos: "0 < f" and fle: "f \<le> 2 ^ 1000" using assms by (auto simp: f_def)
  define R where "R = real_of_int s1 / real_of_int f"
  define E1 where "E1 = real_of_int s2 / real_of_int s1"
  define Ov where "Ov = real_of_int f / real_of_int s1"
  from py_truediv_positive [OF assms(1,2) fpos fle]
  obtain rr where rr: "py_truediv s1 f = Inr rr" and rr_err: "\<bar>rr - R\<bar> \<le> R / 2 ^ 53"
    by (auto simp: R_def)
  from py_truediv_positive [OF assms(3,4) assms(1,2)]
  obtain e1 where e1: "py_truediv s2 s1 = Inr e1" and e1_err: "\<bar>e1 - E1\<bar> \<le> E1 / 2 ^ 53"
    by (auto simp: E1_def)
  from py_truediv_positive [OF fpos fle assms(1,2)]
  obtain oe where oe: "py_truediv f s1 = Inr oe" and oe_err: "\<bar>oe - Ov\<bar> \<le> Ov / 2 ^ 53"
    by (auto simp: Ov_def)
  have "\<exists>e2. (if ws = 3 then py_truediv s3 s2 else Inr 1) = Inr e2 \<and> \<bar>e2 - E2\<bar> \<le> E2 / 2 ^ 53
           \<and> (ws \<noteq> 3 \<longrightarrow> e2 = 1)"
  proof (cases "ws = 3")
    case True
    with py_truediv_positive [OF assms(5,6) assms(3,4)] show ?thesis
      by (auto simp: E2_def)
  next
    case False
    then show ?thesis by (simp add: E2_def)
  qed
  then obtain e2 where e2: "(if ws = 3 then py_truediv s3 s2 else Inr 1) = Inr e2"
    and e2_err: "\<bar>e2 - E2\<bar> \<le> E2 / 2 ^ 53" and e2_one: "ws \<noteq> 3 \<longrightarrow> e2 = 1"
    by blast
  define m where "m = \<lparr>reduction_ratio = rr, step1_efficiency = e1,
                         step2_efficiency = e2, overall_efficiency = oe\<rparr>"
  have calc: "calculate_workflow_efficiency s1 s2 s3 ws = Inr m"
    using rr e1 e2 oe
    by (simp add: calculate_workflow_efficiency_def Let_def f_def [symmetric] m_def)
  have Rpos: "0 < R" and E1pos: "0 < E1" and Opos: "0 < Ov"
    using assms fpos by (simp_all add: R_def E1_def Ov_def)
  have E2pos: "0 < E2" using assms by (simp add: E2_def)
  have id1: "E1 * E2 = Ov"
    using assms by (auto simp: E1_def E2_def Ov_def f_def)
  have id2: "R * Ov = 1"
    using assms fpos by (simp add: R_def Ov_def)
  have u: "(0::real) \<le> 1 / 2 ^ 53" "(1::real) / 2 ^ 53 \<le> 1" by simp_all
  have "\<bar>e1 * e2 - E1 * E2\<bar> \<le> 3 * (1 / 2 ^ 53) * (E1 * E2)"
    using e1_err e2_err by (intro product_error [OF E1pos E2pos _ _ u]) simp_all
  then have "\<bar>e1 * e2 - Ov\<bar> \<le> 3 * Ov / 2 ^ 53" by (simp add: id1)
  moreover have "\<bar>e1 * e2 - oe\<bar> \<le> \<bar>e1 * e2 - Ov\<bar> + \<bar>oe - Ov\<bar>" by simp
  ultimately have "\<bar>e1 * e2 - oe\<bar> \<le> 4 * Ov / 2 ^ 53" using oe_err by simp
  then have b1: "\<bar>e1 * e2 - oe\<bar> \<le> Ov / 2 ^ 51" by simp
  have "\<bar>rr * oe - R * Ov\<bar> \<le> 3 * (1 / 2 ^ 53) * (R * Ov)"
    using rr_err oe_err by (intro product_error [OF Rpos Opos _ _ u]) simp_all
  then have b2: "\<bar>rr * oe - 1\<bar> \<le> 1 / 2 ^ 51" by (simp add: id2)
  have two: "e2 = 1 \<and> e1 * e2 = oe" if "ws \<noteq> 3"
  proof -
    from that have "f = s2" by (simp add: f_def)
    with e1 oe have "e1 = oe" by simp
    with e2_one that show ?thesis by simp
  qed
  show ?thesis
  proof (intro exI [of _ m] exI [of _ f] exI [of _ E2] conjI)
    show "calculate_workflow_efficiency s1 s2 s3 ws = Inr m" by (rule calc)
    show "f = (if ws = 3 then s3 else s2)" by (rule f_def)
    show "E2 = (if ws = 3 then real_of_int s3 / real_of_int s2 else 1)" by (rule E2_def)
    show "\<bar>reduction_ratio m - real_of_int s1 / real_of_int f\<bar>
               \<le> real_of_int s1 / real_of_int f / 2 ^ 53"
      using rr_err by (simp add: m_def R_def)
    show "\<bar>step1_efficiency m - real_of_int s2 / real_of_int s1\<bar>
               \<le> real_of_int s2 / real_of_int s1 / 2 ^ 53"
      using e1_err by (simp add: m_def E1_def)
    show "\<bar>step2_efficiency m - E2\<bar> \<le> E2 / 2 ^ 53"
      using e2_err by (simp add: m_def)
    show "\<bar>overall_efficiency m - real_of_int f / real_of_int s1\<bar>
               \<le> real_of_int f / real_of_int s1 / 2 ^ 53"
      using oe_err by (simp add: m_def Ov_def)
    show "real_of_int s2 / real_of_int s1 * E2 = real_of_int f / real_of_int s1"
      using id1 by (simp add: E1_def Ov_def)
    show "real_of_int s1 / real_of_int f * (real_of_int f / real_of_int s1) = 1"
      using id2 by (simp add: R_def Ov_def)
    show "\<bar>step1_efficiency m * step2_efficiency m - overall_efficiency m\<bar>
               \<le> real_of_int f / real_of_int s1 / 2 ^ 51"
      using b1 by (simp add: m_def Ov_def)
    show "\<bar>reduction_ratio m * overall_efficiency m - 1\<bar> \<le> 1 / 2 ^ 51"
      using b2 by (simp add: m_def)
    show "ws = 2 \<longrightarrow>
            f = s2 \<and> step2_efficiency m = 1
          \<and> step1_efficiency m * step2_efficiency m = overall_efficiency m"
    proof
      assume "ws = 2"
      then have n3: "ws \<noteq> 3" by simp
      with two [OF n3] show "f = s2 \<and> step2_efficiency m = 1
          \<and> step1_efficiency m * step2_efficiency m = overall_efficiency m"
        by (auto simp: m_def f_def)
    qed
  qed
qed

text \<open>The four quotients for the keep-counts 11, 10 and 9, and the two products.\<close>

lemma binary64_11_9:
  "binary64 (11 / 9) = 1376099886140985 / 2 ^ 50"
proof -
  have "binary64 (11 / 9) = real_of_int 5504399544563940 * pow2 (0 - 52)"
    by (rule binary64_eq) (simp_all add: pow2_def)
  then show ?thesis by (simp add: pow2_def)
qed

lemma binary64_10_11:
  "binary64 (10 / 11) = 8188362958855447 / 2 ^ 53"
proof -
  have "binary64 (10 / 11) = real_of_int 8188362958855447 * pow2 (- 1 - 52)"
    by (rule binary64_eq) (simp_all add: pow2_def)
  then show ?thesis by (simp add: pow2_def)
qed

lemma binary64_9_10:
  "binary64 (9 / 10) = 8106479329266893 / 2 ^ 53"
proof -
  have "binary64 (9 / 10) = real_of_int 8106479329266893 * pow2 (- 1 - 52)"
    by (rule binary64_eq) (simp_all add: pow2_def)
  then show ?thesis by (simp add: pow2_def)
qed

lemma binary64_9_11:
  "binary64 (9 / 11) = 7369526662969903 / 2 ^ 53"
proof -
  have "binary64 (9 / 11) = real_of_int 7369526662969903 * pow2 (- 1 - 52)"
    by (rule binary64_eq) (simp_all add: pow2_def)
  then show ?thesis by (simp add: pow2_def)
qed

lemma binary64_product_1:
  "binary64 (8188362958855447 / 2 ^ 53 * (8106479329266893 / 2 ^ 53)) = 3684763331484951 / 2 ^ 52"
proof -
  have "binary64 (8188362958855447 / 2 ^ 53 * (8106479329266893 / 2 ^ 53)) = real_of_int 7369526662969902 * pow2 (- 1 - 52)"
    by (rule binary64_eq) (simp_all add: pow2_def)
  then show ?thesis by (simp add: pow2_def)
qed

lemma binary64_product_2:
  "binary64 (1376099886140985 / 2 ^ 50 * (7369526662969903 / 2 ^ 53)) = 4503599627370497 / 2 ^ 52"
proof -
  have "binary64 (1376099886140985 / 2 ^ 50 * (7369526662969903 / 2 ^ 53)) = real_of_int 4503599627370497 * pow2 (0 - 52)"
    by (rule binary64_eq) (simp_all add: pow2_def)
  then show ?thesis by (simp add: pow2_def)
qed

lemma binary64_11_10:
  "binary64 (11 / 10) = 2476979795053773 / 2 ^ 51"
proof -
  have "binary64 (11 / 10) = real_of_int 4953959590107546 * pow2 (0 - 52)"
    by (rule binary64_eq) (simp_all add: pow2_def)
  then show ?thesis by (simp add: pow2_def)
qed

lemma efficiency_11_10_two_step:
  "calculate_workflow_efficiency 11 10 9 2
     = Inr \<lparr>reduction_ratio = 2476979795053773 / 2 ^ 51,
            step1_efficiency = 8188362958855447 / 2 ^ 53,
            step2_efficiency = 1,
            overall_efficiency = 8188362958855447 / 2 ^ 53\<rparr>"
  using binary64_11_10 binary64_10_11
  by (simp add: calculate_workflow_efficiency_def py_truediv_def pow2_def)

lemma efficiency_11_10_9:
  "calculate_workflow_efficiency 11 10 9 3
     = Inr \<lparr>reduction_ratio = 1376099886140985 / 2 ^ 50,
            step1_efficiency = 8188362958855447 / 2 ^ 53,
            step2_efficiency = 8106479329266893 / 2 ^ 53,
            overall_efficiency = 7369526662969903 / 2 ^ 53\<rparr>"
  using binary64_11_9 binary64_10_11 binary64_9_10 binary64_9_11
  by (simp add: calculate_workflow_efficiency_def py_truediv_def pow2_def)

theorem efficiency_identities_rounded_witness:
  "(0 :: int) < 11 \<and> (11 :: int) \<le> 2 ^ 1000 \<and> (0 :: int) < 10 \<and> (10 :: int) \<le> 2 ^ 1000
   \<and> (0 :: int) < 9 \<and> (9 :: int) \<le> 2 ^ 1000
   \<and> calculate_workflow_efficiency 11 10 9 3
       = Inr \<lparr>reduction_ratio = 1376099886140985 / 2 ^ 50,
              step1_efficiency = 8188362958855447 / 2 ^ 53,
              step2_efficiency = 8106479329266893 / 2 ^ 53,
              overall_efficiency = 7369526662969903 / 2 ^ 53\<rparr>
   \<and> \<bar>1376099886140985 / 2 ^ 50 * (7369526662969903 / 2 ^ 53) - 1 :: real\<bar> \<le> 1 / 2 ^ 51
   \<and> \<bar>8188362958855447 / 2 ^ 53 * (8106479329266893 / 2 ^ 53) - 7369526662969903 / 2 ^ 53 :: real\<bar>
       \<le> 9 / 11 / 2 ^ 51
   \<and> calculate_workflow_efficiency 11 10 9 2
       = Inr \<lparr>reduction_ratio = 2476979795053773 / 2 ^ 51,
              step1_efficiency = 8188362958855447 / 2 ^ 53,
              step2_efficiency = 1,
              overall_efficiency = 8188362958855447 / 2 ^ 53\<rparr>
   \<and> 8188362958855447 / 2 ^ 53 * 1 = (8188362958855447 / 2 ^ 53 :: real)"
proof -
  have h: "(0 :: int) < 11" "(11 :: int) \<le> 2 ^ 1000" "(0 :: int) < 10" "(10 :: int) \<le> 2 ^ 1000"
    "(0 :: int) < 9" "(9 :: int) \<le> 2 ^ 1000" "(3 :: int) = 2 \<or> (3 :: int) = 3"
    by simp_all
  from efficiency_identities_rounded [OF h]
  obtain m f where c: "calculate_workflow_efficiency 11 10 9 3 = Inr m"
    and f: "f = (if (3 :: int) = 3 then 9 else (10 :: int))"
    and b1: "\<bar>step1_efficiency m * step2_efficiency m - overall_efficiency m\<bar>
               \<le> real_of_int f / real_of_int 11 / 2 ^ 51"
    and b2: "\<bar>reduction_ratio m * overall_efficiency m - 1\<bar> \<le> 1 / 2 ^ 51"
    by blast
  from c have m: "m = \<lparr>reduction_ratio = 1376099886140985 / 2 ^ 50,
              step1_efficiency = 8188362958855447 / 2 ^ 53,
              step2_efficiency = 8106479329266893 / 2 ^ 53,
              overall_efficiency = 7369526662969903 / 2 ^ 53\<rparr>"
    by (simp only: efficiency_11_10_9 sum.inject)
  have f9: "f = 9" using f by simp
  have w2: "\<bar>1376099886140985 / 2 ^ 50 * (7369526662969903 / 2 ^ 53) - 1 :: real\<bar> \<le> 1 / 2 ^ 51"
    using b2 unfolding m by (simp only: efficiency_metrics.simps)
  have w1: "\<bar>8188362958855447 / 2 ^ 53 * (8106479329266893 / 2 ^ 53) - 7369526662969903 / 2 ^ 53 :: real\<bar>
       \<le> 9 / 11 / 2 ^ 51"
    using b1 unfolding m f9 by (simp only: efficiency_metrics.simps of_int_numeral)
  have h2: "(2 :: int) = 2 \<or> (2 :: int) = 3" by simp
  from efficiency_identities_rounded [OF h(1-6) h2]
  obtain m2 where c2: "calculate_workflow_efficiency 11 10 9 2 = Inr m2"
    and x2: "step1_efficiency m2 * step2_efficiency m2 = overall_efficiency m2"
    by blast
  from c2 have m2: "m2 = \<lparr>reduction_ratio = 2476979795053773 / 2 ^ 51,
              step1_efficiency = 8188362958855447 / 2 ^ 53,
              step2_efficiency = 1,
              overall_efficiency = 8188362958855447 / 2 ^ 53\<rparr>"
    by (simp only: efficiency_11_10_two_step sum.inject)
  have w3: "8188362958855447 / 2 ^ 53 * 1 = (8188362958855447 / 2 ^ 53 :: real)"
    using x2 unfolding m2 by (simp only: efficiency_metrics.simps)
  show ?thesis
    by (intro conjI) (fact h efficiency_11_10_9 efficiency_11_10_two_step w1 w2 w3)+
qed

text \<open>
  Claim C10, as stated, fails: for the keep-counts 11, 10 and 9 in a 3-step workflow
  neither identity holds between the returned values, whether the product is taken
  exactly or, as Python's \<^verbatim>\<open>*\<close> does, rounded to binary64
  (\<open>0.8181818181818181\<close> against \<open>0.8181818181818182\<close>, and \<open>1.0000000000000002\<close> against 1).
\<close>

theorem efficiency_identities_counterexample:
  "calculate_workflow_efficiency 11 10 9 3
     = Inr \<lparr>reduction_ratio = 1376099886140985 / 2 ^ 50,
            step1_efficiency = 8188362958855447 / 2 ^ 53,
            step2_efficiency = 8106479329266893 / 2 ^ 53,
            overall_efficiency = 7369526662969903 / 2 ^ 53\<rparr>
   \<and> 8188362958855447 / 2 ^ 53 * (8106479329266893 / 2 ^ 53) \<noteq> (7369526662969903 / 2 ^ 53 :: real)
   \<and> 1376099886140985 / 2 ^ 50 * (7369526662969903 / 2 ^ 53) \<noteq> (1 :: real)
   \<and> binary64 (8188362958855447 / 2 ^ 53 * (8106479329266893 / 2 ^ 53))
       \<noteq> 7369526662969903 / 2 ^ 53
   \<and> binary64 (1376099886140985 / 2 ^ 50 * (7369526662969903 / 2 ^ 53)) \<noteq> 1"
proof -
  have "8188362958855447 / 2 ^ 53 * (8106479329266893 / 2 ^ 53) \<noteq> (7369526662969903 / 2 ^ 53 :: real)"
    by simp
  moreover have "1376099886140985 / 2 ^ 50 * (7369526662969903 / 2 ^ 53) \<noteq> (1 :: real)"
    by simp
  moreover have "binary64 (8188362958855447 / 2 ^ 53 * (8106479329266893 / 2 ^ 53))
       \<noteq> 7369526662969903 / 2 ^ 53"
    by (simp only: binary64_product_1) simp
  moreover have "binary64 (1376099886140985 / 2 ^ 50 * (7369526662969903 / 2 ^ 53)) \<noteq> 1"
    by (simp only: binary64_product_2) simp
  ultimately show ?thesis using efficiency_11_10_9 by blast
qed

end
